theory Spec2Isabelle
  imports Complex_Main "HOL-Library.Multiset"
begin

section \<open>Token scoring, pricing and validation pipeline\<close>

text \<open>
  A shallow embedding of the enhanced integration script (the third unnamed source
  part): \<open>calculateWeightedPrice\<close>, \<open>calculateTrustScore\<close>, \<open>validateMarketCap\<close>,
  the part of \<open>enhanceTokenData\<close> that joins them, and \<open>generateMarketCapReport\<close>.

  JavaScript numbers are modelled as \<open>real\<close> (amounts, prices, market caps) and as
  \<open>int\<close>/\<open>nat\<close> where the source only ever holds integers (scores, points, array
  lengths, ages in whole days). NaN and the infinities are outside the model, and
  division is exact. A property that the source reads from an object that may not
  have it is an \<open>option\<close>, with \<open>None\<close> for \<open>undefined\<close>.
\<close>

subsection \<open>Configuration constants\<close>

abbreviation (input) MAX_REASONABLE_PRICE :: real where "MAX_REASONABLE_PRICE \<equiv> 1000"
abbreviation (input) MIN_REASONABLE_PRICE :: real where "MIN_REASONABLE_PRICE \<equiv> 0.000001"
abbreviation (input) MIN_LIQUIDITY_THRESHOLD :: real where "MIN_LIQUIDITY_THRESHOLD \<equiv> 500"
abbreviation (input) MAX_MCAP_LIQUIDITY_RATIO :: real where "MAX_MCAP_LIQUIDITY_RATIO \<equiv> 10000"
abbreviation (input) MIN_POOLS_REQUIRED :: nat where "MIN_POOLS_REQUIRED \<equiv> 3"

definition HONEYPOT_BLACKLIST :: "string list" where
  "HONEYPOT_BLACKLIST =
     [''f45b5a5a20bb18a37e6e18c4cfe17dbc9be5aa3d6fa0453c06ee8da5c77e80b346455448'',
      ''addr1w9zru...lfqw'']"

definition TRUSTED_TOKENS :: "string list" where
  "TRUSTED_TOKENS = [''5b26e685cc5c9ad630bde3e3cd48c694436671f3d25df53777ca60ef4e564c'']"

subsection \<open>Template literals and the audit trail\<close>

text \<open>
  A reason is a template literal. Its fixed text and its interpolated values are kept
  apart, so that number formatting (\<open>toFixed(2)\<close>, decimal rendering) stays symbolic:
  \<open>Txt\<close> is literal text, \<open>Fixed2 x\<close> stands for \<open>x.toFixed(2)\<close>, and \<open>Num n\<close> for an
  interpolated integer.
\<close>

datatype piece = Txt string | Fixed2 real | Num int

record adjustment =
  reason :: "piece list"
  points :: int

text \<open>The three mutable locals of \<open>calculateTrustScore\<close>.\<close>

record scoring =
  score :: int
  penalties :: "adjustment list"
  bonuses :: "adjustment list"

definition pushPenalty :: "piece list \<Rightarrow> int \<Rightarrow> scoring \<Rightarrow> scoring" where
  "pushPenalty r p st = st\<lparr>penalties := penalties st @ [\<lparr>reason = r, points = p\<rparr>]\<rparr>"

definition pushBonus :: "piece list \<Rightarrow> int \<Rightarrow> scoring \<Rightarrow> scoring" where
  "pushBonus r p st = st\<lparr>bonuses := bonuses st @ [\<lparr>reason = r, points = p\<rparr>]\<rparr>"

definition addScore :: "int \<Rightarrow> scoring \<Rightarrow> scoring" where
  "addScore d st = st\<lparr>score := score st + d\<rparr>"

subsection \<open>Ticker patterns\<close>

text \<open>
  The regular expressions are over ASCII letters. A character is read through its code
  (\<open>of_char\<close>); case-insensitive patterns compare lower-cased codes.
\<close>

definition isUpper :: "char \<Rightarrow> bool" where
  "isUpper c = (65 \<le> (of_char c :: nat) \<and> (of_char c :: nat) \<le> 90)"

definition isLower :: "char \<Rightarrow> bool" where
  "isLower c = (97 \<le> (of_char c :: nat) \<and> (of_char c :: nat) \<le> 122)"

definition isAlpha :: "char \<Rightarrow> bool" where
  "isAlpha c = (isUpper c \<or> isLower c)"

definition lowerCode :: "char \<Rightarrow> nat" where
  "lowerCode c = (if isUpper c then of_char c + 32 else of_char c)"

definition matchesNoCase :: "string \<Rightarrow> string \<Rightarrow> bool" where
  "matchesNoCase lit s = (map lowerCode s = map of_char lit)"

text \<open>\<open>/^[Ii][A-Za-z]+$/\<close>\<close>

definition copycatLeadingI :: "string \<Rightarrow> bool" where
  "copycatLeadingI s =
     (case s of [] \<Rightarrow> False
      | c # cs \<Rightarrow> (c = CHR ''I'' \<or> c = CHR ''i'') \<and> cs \<noteq> [] \<and> list_all isAlpha cs)"

text \<open>\<open>/^[A-Za-z]+[A-Z]{3,4}$/\<close>: a non-empty run of letters, then 3 or 4 capitals.\<close>

definition copycatTrailingCaps :: "string \<Rightarrow> bool" where
  "copycatTrailingCaps s =
     list_ex (\<lambda>k. k < length s \<and> list_all isAlpha (take (length s - k) s)
                  \<and> list_all isUpper (drop (length s - k) s)) [3, 4]"

text \<open>\<open>/^[A-Za-z]+[A-Z]{2,3}[A-Za-z]+$/\<close>: letters, 2 or 3 capitals, letters.\<close>

definition copycatEmbeddedCaps :: "string \<Rightarrow> bool" where
  "copycatEmbeddedCaps s =
     list_ex (\<lambda>i. list_ex (\<lambda>k. i + k < length s \<and> list_all isAlpha (take i s)
                                 \<and> list_all isUpper (take k (drop i s))
                                 \<and> list_all isAlpha (drop (i + k) s)) [2, 3])
       [1..<length s]"

definition COPYCAT_PATTERNS :: "(string \<Rightarrow> bool) list" where
  "COPYCAT_PATTERNS = [copycatLeadingI, copycatTrailingCaps, copycatEmbeddedCaps]"

text \<open>
  \<open>/^[iwb]btc$/i\<close>, \<open>/^[iwbe]th$/i\<close>, \<open>/^[iw]usdc?$/i\<close>, \<open>/^[iw]usdt?$/i\<close>: each is a
  finite language, listed in lower case.
\<close>

definition WRAPPED_TOKEN_PATTERNS :: "(string \<Rightarrow> bool) list" where
  "WRAPPED_TOKEN_PATTERNS =
     [\<lambda>s. list_ex (\<lambda>lit. matchesNoCase lit s) [''ibtc'', ''wbtc'', ''bbtc''],
      \<lambda>s. list_ex (\<lambda>lit. matchesNoCase lit s) [''ith'', ''wth'', ''bth'', ''eth''],
      \<lambda>s. list_ex (\<lambda>lit. matchesNoCase lit s) [''iusd'', ''wusd'', ''iusdc'', ''wusdc''],
      \<lambda>s. list_ex (\<lambda>lit. matchesNoCase lit s) [''iusd'', ''wusd'', ''iusdt'', ''wusdt'']]"

text \<open>
  \<open>if (ticker)\<close>: a ticker is truthy when it is a non-empty string; \<open>None\<close> is an
  absent ticker.
\<close>

definition truthyTicker :: "string option \<Rightarrow> bool" where
  "truthyTicker t = (case t of None \<Rightarrow> False | Some s \<Rightarrow> s \<noteq> [])"

definition someMatches :: "(string \<Rightarrow> bool) list \<Rightarrow> string option \<Rightarrow> bool" where
  "someMatches pats t = (case t of None \<Rightarrow> False | Some s \<Rightarrow> list_ex (\<lambda>p. p s) pats)"

subsection \<open>The Trust Scorer: \<open>calculateTrustScore\<close>\<close>

text \<open>
  Each block of the function body is one state transformer, named after the comment
  that heads it in the source; \<open>scoreAdjustments\<close> runs them in source order from
  the initial state (score 100, empty lists). Every block pushes the record and
  changes the score in two separate statements, as the source does.

  Parameters: \<open>tokenId\<close>, \<open>nPools\<close> (\<open>poolCount\<close>), \<open>suspicious\<close>
  (\<open>suspiciousLiquidity\<close>), \<open>liq\<close> (\<open>totalLiquidity\<close>), \<open>mcap\<close> (\<open>marketCap\<close>),
  \<open>circ\<close> (\<open>circulatingSupply\<close>), \<open>ticker\<close>, \<open>age\<close> (\<open>tokenAge\<close>), \<open>fromAvg\<close>
  (\<open>priceFromAveragePrice\<close>).
\<close>

definition checkWhitelist :: "string \<Rightarrow> scoring \<Rightarrow> scoring" where
  "checkWhitelist tokenId st =
     (if tokenId \<in> set TRUSTED_TOKENS
      then addScore 50 (pushBonus [Txt ''Token is in trusted whitelist''] 50 st)
      else st)"

definition checkBlacklist :: "string \<Rightarrow> scoring \<Rightarrow> scoring" where
  "checkBlacklist tokenId st =
     (if tokenId \<in> set HONEYPOT_BLACKLIST
      then addScore (- 100) (pushPenalty [Txt ''Token is in honeypot blacklist''] (- 100) st)
      else st)"

definition checkCopycat :: "string option \<Rightarrow> real \<Rightarrow> scoring \<Rightarrow> scoring" where
  "checkCopycat ticker mcap st =
     (if truthyTicker ticker
      then (if someMatches COPYCAT_PATTERNS ticker \<and> mcap > 1000000
            then addScore (- 25)
                   (pushPenalty [Txt ''Possible copycat token with suspicious name pattern'']
                      (- 25) st)
            else st)
      else st)"

definition checkSupplyDiscrepancy :: "real \<Rightarrow> real \<Rightarrow> real \<Rightarrow> scoring \<Rightarrow> scoring" where
  "checkSupplyDiscrepancy mcap circ liq st =
     (if mcap > 1000000
      then (if circ = 0 \<and> liq > 100000
            then addScore (- 50)
                   (pushPenalty [Txt ''High liquidity but zero circulating supply reported'']
                      (- 50) st)
            else st)
      else st)"

definition checkManipulation :: "real \<Rightarrow> real \<Rightarrow> real \<Rightarrow> scoring \<Rightarrow> scoring" where
  "checkManipulation liq mcap circ st =
     (if liq > 0 \<and> mcap > 0
      then (let ratio = mcap / liq;
                st1 = (if ratio > 50 \<and> mcap > 5000000
                       then addScore (- 40)
                              (pushPenalty [Txt ''Potential price manipulation ('', Fixed2 ratio,
                                            Txt '':1 MCap/Liquidity ratio)''] (- 40) st)
                       else st)
            in if circ < liq * 0.1 \<and> mcap > 1000000
               then addScore (- 30)
                      (pushPenalty [Txt ''Suspicious circulating supply vs. liquidity ratio'']
                         (- 30) st1)
               else st1)
      else st)"

definition fallbackPoolAssessment :: "nat \<Rightarrow> real \<Rightarrow> string option \<Rightarrow> scoring \<Rightarrow> scoring" where
  "fallbackPoolAssessment nPools mcap ticker st =
     (if nPools = 0
      then (let st1 = addScore (- 40)
                        (pushPenalty
                           [Txt ''No liquidity pools found, using fallback price source'']
                           (- 40) st);
                st2 = (if mcap > 1000000
                       then addScore (- 20)
                              (pushPenalty
                                 [Txt ''High market cap with no visible liquidity pools'']
                                 (- 20) st1)
                       else st1)
            in if truthyTicker ticker \<and> someMatches WRAPPED_TOKEN_PATTERNS ticker
               then addScore 30 (pushBonus [Txt ''Recognized wrapped token pattern''] 30 st2)
               else st2)
      else st)"

definition singlePoolAssessment :: "real \<Rightarrow> real \<Rightarrow> real \<Rightarrow> scoring \<Rightarrow> scoring" where
  "singlePoolAssessment mcap circ liq st =
     (let st1 = addScore (- 30) (pushPenalty [Txt ''Single liquidity pool''] (- 30) st);
          st2 = (if mcap > 10000000 \<and> circ = 0
                 then addScore (- 50)
                        (pushPenalty
                           [Txt ''High market cap with single pool and no circulating supply data'']
                           (- 50) st1)
                 else st1)
      in if mcap > 0 \<and> liq > 0
         then (let ratio = mcap / liq
               in if ratio > 100
                  then addScore (- 40)
                         (pushPenalty [Txt ''Extremely high market cap to liquidity ratio ('',
                                       Fixed2 ratio, Txt '':1)''] (- 40) st2)
                  else if ratio > 50
                  then addScore (- 20)
                         (pushPenalty [Txt ''High market cap to liquidity ratio ('',
                                       Fixed2 ratio, Txt '':1)''] (- 20) st2)
                  else st2)
         else st2)"

definition regularPoolAssessment :: "nat \<Rightarrow> real \<Rightarrow> real \<Rightarrow> real \<Rightarrow> scoring \<Rightarrow> scoring" where
  "regularPoolAssessment nPools mcap circ liq st =
     (if nPools = 0
      then addScore (- 80) (pushPenalty [Txt ''No liquidity pools found''] (- 80) st)
      else if nPools = 1
      then singlePoolAssessment mcap circ liq st
      else if nPools \<ge> 2 \<and> nPools < MIN_POOLS_REQUIRED
      then addScore (- 10)
             (pushPenalty [Txt ''Low number of liquidity pools ('', Num (int nPools), Txt '')'']
                (- 10) st)
      else if nPools \<ge> MIN_POOLS_REQUIRED
      then addScore 10
             (pushBonus [Txt ''Good number of liquidity pools ('', Num (int nPools), Txt '')'']
                10 st)
      else st)"

definition poolCountAssessment ::
  "bool \<Rightarrow> nat \<Rightarrow> real \<Rightarrow> real \<Rightarrow> real \<Rightarrow> string option \<Rightarrow> scoring \<Rightarrow> scoring" where
  "poolCountAssessment fromAvg nPools mcap circ liq ticker st =
     (if fromAvg then fallbackPoolAssessment nPools mcap ticker st
      else regularPoolAssessment nPools mcap circ liq st)"

definition liquidityAssessment :: "real \<Rightarrow> scoring \<Rightarrow> scoring" where
  "liquidityAssessment liq st =
     (if liq < 100
      then addScore (- 70) (pushPenalty [Txt ''Extremely low liquidity''] (- 70) st)
      else if liq < 500
      then addScore (- 50) (pushPenalty [Txt ''Very low liquidity''] (- 50) st)
      else if liq < MIN_LIQUIDITY_THRESHOLD
      then addScore (- 30)
             (pushPenalty [Txt ''Low liquidity ('', Fixed2 liq, Txt '' ADA)''] (- 30) st)
      else if liq > 100000
      then addScore 20 (pushBonus [Txt ''Very high liquidity''] 20 st)
      else if liq > 20000
      then addScore 10 (pushBonus [Txt ''Good liquidity''] 10 st)
      else st)"

definition suspiciousLiquidityAssessment :: "bool \<Rightarrow> real \<Rightarrow> scoring \<Rightarrow> scoring" where
  "suspiciousLiquidityAssessment suspicious liq st =
     (if suspicious
      then (if liq < 20000
            then addScore (- 30)
                   (pushPenalty
                      [Txt ''Suspicious liquidity distribution with low total liquidity'']
                      (- 30) st)
            else if liq < 50000
            then addScore (- 15)
                   (pushPenalty
                      [Txt ''Suspicious liquidity distribution with moderate liquidity'']
                      (- 15) st)
            else addScore (- 5)
                   (pushPenalty
                      [Txt ''Suspicious liquidity distribution despite significant liquidity'']
                      (- 5) st))
      else st)"

definition ratioAssessment :: "real \<Rightarrow> real \<Rightarrow> scoring \<Rightarrow> scoring" where
  "ratioAssessment mcap liq st =
     (if mcap > 0 \<and> liq > 0
      then (let ratio = mcap / liq
            in if ratio > MAX_MCAP_LIQUIDITY_RATIO
               then addScore (- 40)
                      (pushPenalty [Txt ''Extreme market cap to liquidity ratio ('',
                                    Fixed2 ratio, Txt '':1)''] (- 40) st)
               else st)
      else st)"

definition ageAssessment :: "int \<Rightarrow> scoring \<Rightarrow> scoring" where
  "ageAssessment age st =
     (if age > 0
      then (if age > 365
            then addScore 15 (pushBonus [Txt ''Token has existed for more than a year''] 15 st)
            else if age > 180
            then addScore 10
                   (pushBonus [Txt ''Token has existed for more than 6 months''] 10 st)
            else if age > 30
            then addScore 5 (pushBonus [Txt ''Token has existed for more than a month''] 5 st)
            else st)
      else st)"

definition initialScoring :: scoring where
  "initialScoring = \<lparr>score = 100, penalties = [], bonuses = []\<rparr>"

definition scoreAdjustments ::
  "string \<Rightarrow> nat \<Rightarrow> bool \<Rightarrow> real \<Rightarrow> real \<Rightarrow> real \<Rightarrow> string option \<Rightarrow> int \<Rightarrow> bool \<Rightarrow> scoring" where
  "scoreAdjustments tokenId nPools suspicious liq mcap circ ticker age fromAvg =
     ageAssessment age
       (ratioAssessment mcap liq
         (suspiciousLiquidityAssessment suspicious liq
           (liquidityAssessment liq
             (poolCountAssessment fromAvg nPools mcap circ liq ticker
               (checkManipulation liq mcap circ
                 (checkSupplyDiscrepancy mcap circ liq
                   (checkCopycat ticker mcap
                     (checkBlacklist tokenId
                       (checkWhitelist tokenId initialScoring)))))))))"

text \<open>The source's level strings are 'Very Low', 'Low', 'Moderate', 'Good', 'High'.\<close>

datatype trust_level = VeryLow | Low | Moderate | Good | High

text \<open>
  The object returned by \<open>calculateTrustScore\<close>, with the properties that
  \<open>enhanceTokenData\<close> adds to it afterwards and the two that \<open>validateMarketCap\<close>
  reads from it (\<open>trustScore\<close>, \<open>reason\<close>). The returned object literal has six
  properties; all the others are absent from it.
\<close>

record trust_assessment = scoring +
  trustLevel :: trust_level
  isHoneypot :: bool
  ta_priceFromAveragePrice :: bool
  potentialCopycatDetected :: "bool option"
  supplyDiscrepancy :: "bool option"
  ta_noPoolsFound :: "bool option"
  ta_emptySuspiciousPools :: "bool option"
  circulatingSupply :: "real option"
  trustScore :: "int option"
  ta_reason :: "string option"

definition classify :: "int \<Rightarrow> real \<Rightarrow> trust_level \<times> bool" where
  "classify s liq =
     (if s < 20 then (VeryLow, True)
      else if s < 40 then (Low, liq < 5000)
      else if s < 60 then (Moderate, False)
      else if s < 80 then (Good, False)
      else (High, False))"

definition calculateTrustScore ::
  "string \<Rightarrow> nat \<Rightarrow> bool \<Rightarrow> real \<Rightarrow> real \<Rightarrow> real \<Rightarrow> string option \<Rightarrow> int \<Rightarrow> bool
     \<Rightarrow> trust_assessment" where
  "calculateTrustScore tokenId nPools suspicious liq mcap circ ticker age fromAvg =
     (let st = scoreAdjustments tokenId nPools suspicious liq mcap circ ticker age fromAvg;
          s = max 0 (score st);
          lh = classify s liq
      in \<lparr>score = s, penalties = penalties st, bonuses = bonuses st,
          trustLevel = fst lh, isHoneypot = snd lh,
          ta_priceFromAveragePrice = fromAvg,
          potentialCopycatDetected = None, supplyDiscrepancy = None,
          ta_noPoolsFound = None, ta_emptySuspiciousPools = None,
          circulatingSupply = None, trustScore = None, ta_reason = None\<rparr>)"

subsection \<open>The Market Cap Validator: \<open>validateMarketCap\<close>\<close>

record validation =
  valid :: bool
  reasons :: "piece list list"
  v_trustScore :: int

definition pushReason :: "piece list \<Rightarrow> validation \<Rightarrow> validation" where
  "pushReason r v = v\<lparr>reasons := reasons v @ [r]\<rparr>"

definition invalidate :: "validation \<Rightarrow> validation" where
  "invalidate v = v\<lparr>valid := False\<rparr>"

text \<open>A flag that may be absent is truthy only when it is present and true.\<close>

definition truthy :: "bool option \<Rightarrow> bool" where
  "truthy b = (b = Some True)"

text \<open>
  The function starts from \<open>valid: true\<close> and an empty reason list, and runs seven
  checks in order; each is one state transformer here. It reads
  \<open>trustAssessment.trustScore\<close> twice: \<open>trustScore || 0\<close> for the result, and
  \<open>trustScore < 40\<close> for the caution reason, which is false when the property is
  absent. \<open>reason || 'Low trust score'\<close> falls back on an absent or empty reason.
  \<open>circulatingSupply === 0 || !circulatingSupply\<close> holds for zero and for an absent
  supply.
\<close>

definition checkEmptySuspiciousPools :: "trust_assessment \<Rightarrow> validation \<Rightarrow> validation" where
  "checkEmptySuspiciousPools ta v =
     (if truthy (ta_emptySuspiciousPools ta)
      then pushReason
             [Txt ''Suspicious token: Claims to have pools but no valid liquidity data available'']
             (invalidate v)
      else v)"

definition checkNoPoolsFound :: "real \<Rightarrow> trust_assessment \<Rightarrow> validation \<Rightarrow> validation" where
  "checkNoPoolsFound mcap ta v =
     (if truthy (ta_noPoolsFound ta) \<and> mcap > 1000000
      then pushReason
             [Txt ''No liquidity pools found despite significant market cap - exercise extreme caution'']
             v
      else v)"

definition checkSupplyRedFlag :: "trust_assessment \<Rightarrow> validation \<Rightarrow> validation" where
  "checkSupplyRedFlag ta v =
     (if truthy (supplyDiscrepancy ta)
      then pushReason
             [Txt ''Suspicious token: Significant discrepancy between reported supply and actual supply'']
             (invalidate v)
      else v)"

definition checkMinimumLiquidity :: "real \<Rightarrow> validation \<Rightarrow> validation" where
  "checkMinimumLiquidity liq v =
     (if liq < MIN_LIQUIDITY_THRESHOLD
      then pushReason
             [Txt ''Insufficient liquidity ('', Fixed2 liq,
              Txt '' ADA) - minimum threshold is '', Num 500, Txt '' ADA'']
             v
      else v)"

definition checkLiquidityRatio :: "real \<Rightarrow> real \<Rightarrow> validation \<Rightarrow> validation" where
  "checkLiquidityRatio mcap liq v =
     (if liq > 0 \<and> mcap > 0
      then (let mcapToLiquidityRatio = mcap / liq
            in if mcapToLiquidityRatio > MAX_MCAP_LIQUIDITY_RATIO
               then (let v1 = pushReason
                                [Txt ''Suspicious market cap to liquidity ratio ('',
                                 Fixed2 mcapToLiquidityRatio,
                                 Txt '':1) - maximum allowed is '', Num 10000, Txt '':1'']
                                v
                     in if mcapToLiquidityRatio > MAX_MCAP_LIQUIDITY_RATIO * 10
                        then pushReason
                               [Txt ''Extremely suspicious market cap to liquidity ratio - likely manipulated'']
                               (invalidate v1)
                        else v1)
               else v)
      else v)"

definition checkTrustScore :: "trust_assessment \<Rightarrow> validation \<Rightarrow> validation" where
  "checkTrustScore ta v =
     (if isHoneypot ta
      then pushReason
             [Txt ''Potential honeypot token: '',
              Txt (case ta_reason ta of None \<Rightarrow> ''Low trust score''
                   | Some s \<Rightarrow> if s = [] then ''Low trust score'' else s)]
             (invalidate v)
      else (case trustScore ta of
              None \<Rightarrow> v
            | Some s \<Rightarrow>
                if s < 40
                then pushReason
                       [Txt ''Low trust score ('', Num s, Txt ''/100) - exercise caution''] v
                else v))"

definition checkZeroSupply :: "real \<Rightarrow> trust_assessment \<Rightarrow> validation \<Rightarrow> validation" where
  "checkZeroSupply mcap ta v =
     (if mcap > 1000000
         \<and> (case circulatingSupply ta of None \<Rightarrow> True | Some c \<Rightarrow> c = 0)
      then (let v1 = pushReason
                       [Txt ''High market cap with zero or unreported circulating supply - potential manipulation'']
                       v
            in if mcap > 5000000
               then pushReason
                      [Txt ''Invalid market cap calculation: Cannot have high market cap with zero circulating supply'']
                      (invalidate v1)
               else v1)
      else v)"

definition validateMarketCap :: "real \<Rightarrow> real \<Rightarrow> trust_assessment \<Rightarrow> validation" where
  "validateMarketCap mcap liq ta =
     checkZeroSupply mcap ta
       (checkTrustScore ta
         (checkLiquidityRatio mcap liq
           (checkMinimumLiquidity liq
             (checkSupplyRedFlag ta
               (checkNoPoolsFound mcap ta
                 (checkEmptySuspiciousPools ta
                   \<lparr>valid = True, reasons = [],
                    v_trustScore = (case trustScore ta of None \<Rightarrow> 0 | Some s \<Rightarrow> s)\<rparr>))))))"

text \<open>
  \<open>enhanceTokenData\<close>, after the trust assessment is computed: the five properties it
  sets on the assessment before handing it to \<open>validateMarketCap\<close>.
\<close>

definition attachFlags ::
  "bool \<Rightarrow> bool \<Rightarrow> bool option \<Rightarrow> bool option \<Rightarrow> real \<Rightarrow> trust_assessment
     \<Rightarrow> trust_assessment" where
  "attachFlags copycat discrepancy noPools emptyPools circulating ta =
     ta\<lparr>potentialCopycatDetected := Some copycat,
        supplyDiscrepancy := Some discrepancy,
        ta_noPoolsFound := noPools,
        ta_emptySuspiciousPools := emptyPools,
        circulatingSupply := Some circulating\<rparr>"

subsection \<open>The Weighted Price Resolver: \<open>calculateWeightedPrice\<close>\<close>

text \<open>
  The three HTTP requests of the function are its inputs. A request either rejects
  (with a message) or resolves with its \<open>data\<close>. The pool list is \<open>None\<close> when the data
  is not an array; an average-price datum is \<open>None\<close> when the data is empty. Amounts and
  prices arrive as numbers; an absent amount is \<open>None\<close> and is read as 0
  (\<open>parseFloat(x || 0)\<close>).
\<close>

datatype 'a response = Rejected string | Resolved 'a

record raw_pool =
  dex :: string
  token_1_amount :: "real option"
  token_2_amount :: "real option"

record average_price =
  price_ba :: "real option"
  price_ab :: "real option"

record price_source =
  poolsResponse :: "raw_pool list option response"
  averagePriceTokenADA :: "average_price option response"
  averagePriceADAToken :: "average_price option response"

record priced_pool =
  pool_dex :: string
  adaAmount :: real
  tokenAmount :: real
  price :: real
  pool_valid :: bool

text \<open>The returned object; a property the returned literal does not have is \<open>None\<close>.\<close>

record price_result =
  weightedPrice :: real
  totalLiquidity :: real
  filteredOutliers :: bool
  poolCount :: nat
  originalPoolCount :: "nat option"
  medianUsed :: "bool option"
  suspiciousLiquidity :: "bool option"
  priceFromAveragePrice :: "bool option"
  noPoolsFound :: "bool option"
  emptySuspiciousPools :: "bool option"
  error :: "string option"

definition amountOf :: "real option \<Rightarrow> real" where
  "amountOf x = (case x of None \<Rightarrow> 0 | Some a \<Rightarrow> a)"

text \<open>\<open>response.data && response.data.price_xx\<close>: the price when it is present and not 0.\<close>

definition priceOf :: "average_price option \<Rightarrow> (average_price \<Rightarrow> real option) \<Rightarrow> real option" where
  "priceOf d field =
     (case d of None \<Rightarrow> None
      | Some a \<Rightarrow> (case field a of None \<Rightarrow> None
                   | Some x \<Rightarrow> if x = 0 then None else Some x))"

definition toPricedPool :: "raw_pool \<Rightarrow> priced_pool" where
  "toPricedPool pool =
     (let ada = amountOf (token_1_amount pool);
          tok = amountOf (token_2_amount pool)
      in if ada \<le> 0 \<or> tok \<le> 0
         then \<lparr>pool_dex = dex pool, adaAmount = 0, tokenAmount = 0, price = 0,
               pool_valid = False\<rparr>
         else \<lparr>pool_dex = dex pool, adaAmount = ada, tokenAmount = tok, price = ada / tok,
               pool_valid = True\<rparr>)"

text \<open>The object built twice in the no-pool branch (both quote directions).\<close>

definition averagePriceResult :: "real \<Rightarrow> price_result" where
  "averagePriceResult p =
     \<lparr>weightedPrice = p, totalLiquidity = 0, filteredOutliers = False, poolCount = 0,
      originalPoolCount = Some 0, medianUsed = None, suspiciousLiquidity = Some True,
      priceFromAveragePrice = Some True, noPoolsFound = None, emptySuspiciousPools = None,
      error = None\<rparr>"

text \<open>
  The inner \<open>try\<close> of the no-pool branch: \<open>Some r\<close> when it returns \<open>r\<close>, \<open>None\<close> when
  control falls through to the zero-price return (no price either way, or a request
  rejected: the \<open>catch\<close> only logs).
\<close>

definition averagePriceLookup :: "price_source \<Rightarrow> price_result option" where
  "averagePriceLookup src =
     (case averagePriceTokenADA src of
        Rejected e \<Rightarrow> None
      | Resolved d \<Rightarrow>
          (case priceOf d price_ba of
             Some p \<Rightarrow> Some (averagePriceResult p)
           | None \<Rightarrow>
               (case averagePriceADAToken src of
                  Rejected e \<Rightarrow> None
                | Resolved d' \<Rightarrow>
                    (case priceOf d' price_ab of
                       Some p \<Rightarrow> Some (averagePriceResult p)
                     | None \<Rightarrow> None))))"

definition noPoolData :: "price_source \<Rightarrow> price_result" where
  "noPoolData src =
     (case averagePriceLookup src of
        Some r \<Rightarrow> r
      | None \<Rightarrow>
          \<lparr>weightedPrice = 0, totalLiquidity = 0, filteredOutliers = False, poolCount = 0,
           originalPoolCount = Some 0, medianUsed = None, suspiciousLiquidity = Some True,
           priceFromAveragePrice = None, noPoolsFound = Some True,
           emptySuspiciousPools = None, error = None\<rparr>)"

text \<open>
  Pools exist but none has a valid price. \<open>attemptedAveragePrice\<close> is still false here
  (the branch that sets it always returns), so the request is made.
\<close>

definition emptySuspiciousPoolData :: "price_source \<Rightarrow> nat \<Rightarrow> price_result" where
  "emptySuspiciousPoolData src nRaw =
     (case (case averagePriceTokenADA src of
              Rejected e \<Rightarrow> None
            | Resolved d \<Rightarrow> priceOf d price_ba) of
        Some p \<Rightarrow>
          \<lparr>weightedPrice = p, totalLiquidity = 0, filteredOutliers = False, poolCount = 0,
           originalPoolCount = Some nRaw, medianUsed = Some False,
           suspiciousLiquidity = Some True, priceFromAveragePrice = Some True,
           noPoolsFound = None, emptySuspiciousPools = Some True, error = None\<rparr>
      | None \<Rightarrow>
          \<lparr>weightedPrice = 0, totalLiquidity = 0, filteredOutliers = False, poolCount = 0,
           originalPoolCount = Some nRaw, medianUsed = None,
           suspiciousLiquidity = Some True, priceFromAveragePrice = None,
           noPoolsFound = None, emptySuspiciousPools = Some True, error = None\<rparr>)"

definition isOutlier :: "priced_pool \<Rightarrow> bool" where
  "isOutlier pool = (price pool > MAX_REASONABLE_PRICE \<or> price pool < MIN_REASONABLE_PRICE)"

definition hasExtremeOutliers :: "priced_pool list \<Rightarrow> bool" where
  "hasExtremeOutliers poolsWithPrices = list_ex isOutlier poolsWithPrices"

definition reasonablePools :: "priced_pool list \<Rightarrow> priced_pool list" where
  "reasonablePools poolsWithPrices =
     (if hasExtremeOutliers poolsWithPrices
      then filter (\<lambda>pool. price pool \<le> MAX_REASONABLE_PRICE
                          \<and> price pool \<ge> MIN_REASONABLE_PRICE) poolsWithPrices
      else poolsWithPrices)"

text \<open>\<open>pools.reduce((sum, pool) => sum + pool.adaAmount, 0)\<close>\<close>

definition sumLiquidity :: "priced_pool list \<Rightarrow> real" where
  "sumLiquidity ps = foldl (\<lambda>sum pool. sum + adaAmount pool) 0 ps"

text \<open>
  The median branch. \<open>Array.prototype.sort\<close> is stable, as \<open>sort_key\<close> is; the branch is
  only reached with at least one priced pool, so the index is in range.
\<close>

definition medianFallback :: "priced_pool list \<Rightarrow> price_result" where
  "medianFallback poolsWithPrices =
     (let sortedPrices = sort_key price poolsWithPrices;
          medianPrice = price (sortedPrices ! (length sortedPrices div 2));
          cappedPrice = min medianPrice MAX_REASONABLE_PRICE
      in \<lparr>weightedPrice = cappedPrice, totalLiquidity = sumLiquidity poolsWithPrices,
          filteredOutliers = True, poolCount = length poolsWithPrices,
          originalPoolCount = None, medianUsed = Some True, suspiciousLiquidity = None,
          priceFromAveragePrice = None, noPoolsFound = None, emptySuspiciousPools = None,
          error = None\<rparr>)"

definition suspiciousDistribution :: "priced_pool list \<Rightarrow> real \<Rightarrow> bool" where
  "suspiciousDistribution reasonable totalLiq =
     (if length reasonable > 0
      then (let sortedByLiquidity = sort_key (\<lambda>pool. - adaAmount pool) reasonable
            in length reasonable = 1
               \<or> adaAmount (sortedByLiquidity ! 0) / totalLiq > 0.95)
      else False)"

definition weightedAverage :: "priced_pool list \<Rightarrow> bool \<Rightarrow> nat \<Rightarrow> price_result" where
  "weightedAverage reasonable outliers nRaw =
     (let totalLiq = sumLiquidity reasonable
      in if totalLiq = 0
         then \<lparr>weightedPrice = 0, totalLiquidity = 0, filteredOutliers = outliers,
               poolCount = length reasonable, originalPoolCount = None, medianUsed = None,
               suspiciousLiquidity = None, priceFromAveragePrice = None,
               noPoolsFound = None, emptySuspiciousPools = None, error = None\<rparr>
         else (let suspicious = suspiciousDistribution reasonable totalLiq;
                   wp = foldl (\<lambda>sum pool. sum + price pool * (adaAmount pool / totalLiq))
                          0 reasonable
               in \<lparr>weightedPrice = wp, totalLiquidity = totalLiq, filteredOutliers = outliers,
                   poolCount = length reasonable, originalPoolCount = Some nRaw,
                   medianUsed = Some suspicious, suspiciousLiquidity = Some suspicious,
                   priceFromAveragePrice = Some False, noPoolsFound = None,
                   emptySuspiciousPools = None, error = None\<rparr>))"

definition calculateWeightedPrice :: "price_source \<Rightarrow> price_result" where
  "calculateWeightedPrice src =
     (case poolsResponse src of
        Rejected msg \<Rightarrow>
          \<lparr>weightedPrice = 0, totalLiquidity = 0, filteredOutliers = False, poolCount = 0,
           originalPoolCount = None, medianUsed = None, suspiciousLiquidity = None,
           priceFromAveragePrice = None, noPoolsFound = None, emptySuspiciousPools = None,
           error = Some msg\<rparr>
      | Resolved None \<Rightarrow> noPoolData src
      | Resolved (Some pools) \<Rightarrow>
          if length pools = 0 then noPoolData src
          else (let poolsWithPrices = filter pool_valid (map toPricedPool pools)
                in if length pools > 0 \<and> length poolsWithPrices = 0
                   then emptySuspiciousPoolData src (length pools)
                   else (let reasonable = reasonablePools poolsWithPrices
                         in if length reasonable = 0
                            then medianFallback poolsWithPrices
                            else weightedAverage reasonable
                                   (hasExtremeOutliers poolsWithPrices) (length pools))))"

subsection \<open>The resolver in double arithmetic\<close>

text \<open>
  The source computes in IEEE doubles: each \<open>+\<close>, \<open>*\<close> and \<open>/\<close> returns the exact result
  rounded to a double. The definitions of the previous subsection compute exactly; they
  agree with the source on inputs whose intermediate results are all doubles. The
  definitions below are the same function bodies with the rounding written at every
  arithmetic operation of the source, the rounding function \<open>rnd\<close> being a parameter
  (round-to-nearest for the source; the identity gives the exact versions back).
  Comparisons and \<open>Math.min\<close> are exact on doubles and stay as they are. The literal
  \<open>0.000001\<close> and the literal \<open>0.95\<close> are not doubles and denote their roundings; the
  integer literals are doubles. The sort comparators subtract two doubles, and the sign
  of the rounded difference is the sign of the exact one, so the sorts stay sorts by
  key. Overflow, NaN and the infinities remain outside the model.
\<close>

definition toPricedPool_fp :: "(real \<Rightarrow> real) \<Rightarrow> raw_pool \<Rightarrow> priced_pool" where
  "toPricedPool_fp rnd pool =
     (let ada = amountOf (token_1_amount pool);
          tok = amountOf (token_2_amount pool)
      in if ada \<le> 0 \<or> tok \<le> 0
         then \<lparr>pool_dex = dex pool, adaAmount = 0, tokenAmount = 0, price = 0,
               pool_valid = False\<rparr>
         else \<lparr>pool_dex = dex pool, adaAmount = ada, tokenAmount = tok,
               price = rnd (ada / tok), pool_valid = True\<rparr>)"

definition isOutlier_fp :: "(real \<Rightarrow> real) \<Rightarrow> priced_pool \<Rightarrow> bool" where
  "isOutlier_fp rnd pool =
     (price pool > MAX_REASONABLE_PRICE \<or> price pool < rnd MIN_REASONABLE_PRICE)"

definition hasExtremeOutliers_fp :: "(real \<Rightarrow> real) \<Rightarrow> priced_pool list \<Rightarrow> bool" where
  "hasExtremeOutliers_fp rnd poolsWithPrices = list_ex (isOutlier_fp rnd) poolsWithPrices"

definition reasonablePools_fp :: "(real \<Rightarrow> real) \<Rightarrow> priced_pool list \<Rightarrow> priced_pool list" where
  "reasonablePools_fp rnd poolsWithPrices =
     (if hasExtremeOutliers_fp rnd poolsWithPrices
      then filter (\<lambda>pool. price pool \<le> MAX_REASONABLE_PRICE
                          \<and> price pool \<ge> rnd MIN_REASONABLE_PRICE) poolsWithPrices
      else poolsWithPrices)"

definition sumLiquidity_fp :: "(real \<Rightarrow> real) \<Rightarrow> priced_pool list \<Rightarrow> real" where
  "sumLiquidity_fp rnd ps = foldl (\<lambda>sum pool. rnd (sum + adaAmount pool)) 0 ps"

definition medianFallback_fp :: "(real \<Rightarrow> real) \<Rightarrow> priced_pool list \<Rightarrow> price_result" where
  "medianFallback_fp rnd poolsWithPrices =
     (let sortedPrices = sort_key price poolsWithPrices;
          medianPrice = price (sortedPrices ! (length sortedPrices div 2));
          cappedPrice = min medianPrice MAX_REASONABLE_PRICE
      in \<lparr>weightedPrice = cappedPrice, totalLiquidity = sumLiquidity_fp rnd poolsWithPrices,
          filteredOutliers = True, poolCount = length poolsWithPrices,
          originalPoolCount = None, medianUsed = Some True, suspiciousLiquidity = None,
          priceFromAveragePrice = None, noPoolsFound = None, emptySuspiciousPools = None,
          error = None\<rparr>)"

definition suspiciousDistribution_fp ::
  "(real \<Rightarrow> real) \<Rightarrow> priced_pool list \<Rightarrow> real \<Rightarrow> bool" where
  "suspiciousDistribution_fp rnd reasonable totalLiq =
     (if length reasonable > 0
      then (let sortedByLiquidity = sort_key (\<lambda>pool. - adaAmount pool) reasonable
            in length reasonable = 1
               \<or> rnd (adaAmount (sortedByLiquidity ! 0) / totalLiq) > rnd 0.95)
      else False)"

definition weightedAverage_fp ::
  "(real \<Rightarrow> real) \<Rightarrow> priced_pool list \<Rightarrow> bool \<Rightarrow> nat \<Rightarrow> price_result" where
  "weightedAverage_fp rnd reasonable outliers nRaw =
     (let totalLiq = sumLiquidity_fp rnd reasonable
      in if totalLiq = 0
         then \<lparr>weightedPrice = 0, totalLiquidity = 0, filteredOutliers = outliers,
               poolCount = length reasonable, originalPoolCount = None, medianUsed = None,
               suspiciousLiquidity = None, priceFromAveragePrice = None,
               noPoolsFound = None, emptySuspiciousPools = None, error = None\<rparr>
         else (let suspicious = suspiciousDistribution_fp rnd reasonable totalLiq;
                   wp = foldl (\<lambda>sum pool.
                                 rnd (sum + rnd (price pool * rnd (adaAmount pool / totalLiq))))
                          0 reasonable
               in \<lparr>weightedPrice = wp, totalLiquidity = totalLiq, filteredOutliers = outliers,
                   poolCount = length reasonable, originalPoolCount = Some nRaw,
                   medianUsed = Some suspicious, suspiciousLiquidity = Some suspicious,
                   priceFromAveragePrice = Some False, noPoolsFound = None,
                   emptySuspiciousPools = None, error = None\<rparr>))"

definition calculateWeightedPrice_fp :: "(real \<Rightarrow> real) \<Rightarrow> price_source \<Rightarrow> price_result" where
  "calculateWeightedPrice_fp rnd src =
     (case poolsResponse src of
        Rejected msg \<Rightarrow>
          \<lparr>weightedPrice = 0, totalLiquidity = 0, filteredOutliers = False, poolCount = 0,
           originalPoolCount = None, medianUsed = None, suspiciousLiquidity = None,
           priceFromAveragePrice = None, noPoolsFound = None, emptySuspiciousPools = None,
           error = Some msg\<rparr>
      | Resolved None \<Rightarrow> noPoolData src
      | Resolved (Some pools) \<Rightarrow>
          if length pools = 0 then noPoolData src
          else (let poolsWithPrices = filter pool_valid (map (toPricedPool_fp rnd) pools)
                in if length pools > 0 \<and> length poolsWithPrices = 0
                   then emptySuspiciousPoolData src (length pools)
                   else (let reasonable = reasonablePools_fp rnd poolsWithPrices
                         in if length reasonable = 0
                            then medianFallback_fp rnd poolsWithPrices
                            else weightedAverage_fp rnd reasonable
                                   (hasExtremeOutliers_fp rnd poolsWithPrices)
                                   (length pools))))"

subsection \<open>\<open>enhanceTokenData\<close> and \<open>generateMarketCapReport\<close>\<close>

text \<open>
  A token summary as loaded from storage, and the record the enrichment returns. The
  report also receives degraded records (\<open>token_id\<close>, \<open>error\<close>, \<open>updated_at\<close> only), so
  every property it reads is optional. Timestamps are left out.
\<close>

record token_summary =
  s_token_id :: string
  s_ticker :: "string option"
  s_circulating_supply :: "real option"
  s_total_supply :: "real option"

record enhanced_token =
  token_id :: string
  market_cap :: "real option"
  token_price :: "real option"
  liquidity :: "real option"
  total_supply :: "real option"
  circulating_supply :: "real option"
  outliers_filtered :: "bool option"
  honeypot_risk :: "bool option"
  trust_assessment :: "scoring option"
  token_validation :: "validation option"

text \<open>
  The pure part of \<open>enhanceTokenData\<close>: the price result, the token age in days and the
  outcome of the similar-ticker scan are inputs (\<open>similar\<close>: some other stored summary
  has a ticker containing, or contained in, this one and reports a positive
  circulating supply).
\<close>

definition enhanceTokenData ::
  "token_summary \<Rightarrow> price_result \<Rightarrow> int \<Rightarrow> bool \<Rightarrow> enhanced_token" where
  "enhanceTokenData token pr tokenAge similar =
     (let circulating = (case s_circulating_supply token of
                           None \<Rightarrow> 0 | Some c \<Rightarrow> if c > 0 then c else 0);
          supply = (if circulating \<noteq> 0 then circulating
                    else amountOf (s_total_supply token));
          marketCap = weightedPrice pr * (if circulating \<noteq> 0 then circulating else supply);
          copycat = (truthyTicker (s_ticker token) \<and> similar \<and> circulating = 0
                     \<and> marketCap > 1000000 \<and> totalLiquidity pr > 100000);
          ta = attachFlags copycat copycat (noPoolsFound pr) (emptySuspiciousPools pr)
                 circulating
                 (calculateTrustScore (s_token_id token) (poolCount pr)
                    (truthy (suspiciousLiquidity pr)) (totalLiquidity pr) marketCap
                    circulating (s_ticker token) tokenAge
                    (truthy (priceFromAveragePrice pr)));
          v = validateMarketCap marketCap (totalLiquidity pr) ta
      in \<lparr>token_id = s_token_id token, market_cap = Some marketCap,
          token_price = Some (weightedPrice pr), liquidity = Some (totalLiquidity pr),
          total_supply = None, circulating_supply = Some circulating,
          outliers_filtered = Some (filteredOutliers pr),
          honeypot_risk = Some (isHoneypot ta \<or> copycat),
          trust_assessment = Some \<lparr>score = score ta, penalties = penalties ta,
                                    bonuses = bonuses ta\<rparr>,
          token_validation = Some v\<rparr>)"

record market_cap_report =
  total_tokens :: nat
  tokens_with_market_cap :: nat
  tokens_with_price :: nat
  tokens_with_total_supply :: nat
  tokens_with_circulating_supply :: nat
  tokens_with_liquidity :: nat
  tokens_with_filtered_outliers :: nat
  potential_honeypot_tokens :: nat
  tokens_with_invalid_market_caps :: nat
  tokens_with_valid_market_caps :: nat
  top_tokens_by_market_cap_valid :: "enhanced_token list"

abbreviation (input) HIGH_TRUST_THRESHOLD :: int where "HIGH_TRUST_THRESHOLD \<equiv> 80"
abbreviation (input) MODERATE_TRUST_THRESHOLD :: int where "MODERATE_TRUST_THRESHOLD \<equiv> 40"

text \<open>\<open>x > 0\<close> on a property that may be absent: false when it is.\<close>

definition positive :: "real option \<Rightarrow> bool" where
  "positive x = (case x of None \<Rightarrow> False | Some v \<Rightarrow> v > 0)"

definition scoreAtLeast :: "int \<Rightarrow> enhanced_token \<Rightarrow> bool" where
  "scoreAtLeast threshold token =
     (case trust_assessment token of None \<Rightarrow> False | Some ta \<Rightarrow> score ta \<ge> threshold)"

definition marketCapOf :: "enhanced_token \<Rightarrow> real" where
  "marketCapOf token = amountOf (market_cap token)"

definition validMarketCap :: "enhanced_token \<Rightarrow> bool" where
  "validMarketCap token =
     (positive (market_cap token) \<and> scoreAtLeast MODERATE_TRUST_THRESHOLD token)"

text \<open>
  \<open>sort((a, b) => b.market_cap - a.market_cap)\<close>: a stable sort, descending by market
  cap; every token it sorts has one.
\<close>

definition generateMarketCapReport :: "enhanced_token list \<Rightarrow> market_cap_report" where
  "generateMarketCapReport enhancedTokens =
     (let validMarketCapTokens = filter validMarketCap enhancedTokens;
          invalidMarketCapTokens =
            filter (\<lambda>token. positive (market_cap token)
                      \<and> \<not> scoreAtLeast MODERATE_TRUST_THRESHOLD token) enhancedTokens;
          sortedByMarketCap = sort_key (\<lambda>token. - marketCapOf token) validMarketCapTokens
      in \<lparr>total_tokens = length enhancedTokens,
          tokens_with_market_cap =
            length (filter (\<lambda>token. positive (market_cap token)) enhancedTokens),
          tokens_with_price =
            length (filter (\<lambda>token. positive (token_price token)) enhancedTokens),
          tokens_with_total_supply =
            length (filter (\<lambda>token. positive (total_supply token)) enhancedTokens),
          tokens_with_circulating_supply =
            length (filter (\<lambda>token. positive (circulating_supply token)) enhancedTokens),
          tokens_with_liquidity =
            length (filter (\<lambda>token. positive (liquidity token)) enhancedTokens),
          tokens_with_filtered_outliers =
            length (filter (\<lambda>token. truthy (outliers_filtered token)) enhancedTokens),
          potential_honeypot_tokens =
            length (filter (\<lambda>token. truthy (honeypot_risk token)) enhancedTokens),
          tokens_with_invalid_market_caps = length invalidMarketCapTokens,
          tokens_with_valid_market_caps = length validMarketCapTokens,
          top_tokens_by_market_cap_valid = sortedByMarketCap\<rparr>)"

subsection \<open>Vocabulary of the properties\<close>

text \<open>The sum of the signed deltas recorded in a list of adjustments.\<close>

definition sumPoints :: "adjustment list \<Rightarrow> int" where
  "sumPoints xs = sum_list (map points xs)"

text \<open>
  The audit-trail invariant of the scorer's locals: the score is 100 plus everything
  recorded, penalties are negative and bonuses positive.
\<close>

definition auditOk :: "scoring \<Rightarrow> bool" where
  "auditOk st =
     (score st = 100 + sumPoints (bonuses st) + sumPoints (penalties st)
      \<and> list_all (\<lambda>a. points a < 0) (penalties st)
      \<and> list_all (\<lambda>a. points a > 0) (bonuses st))"

text \<open>
  A rule is recognised in the audit trail by the fixed text its reason starts with.
  The liquidity block and the pool-count block (both branches) use these texts, and no
  other block does.
\<close>

definition headText :: "adjustment \<Rightarrow> string" where
  "headText a = (case reason a of Txt s # _ \<Rightarrow> s | _ \<Rightarrow> [])"

definition isLiquidityTier :: "adjustment \<Rightarrow> bool" where
  "isLiquidityTier a =
     (headText a \<in> set [''Extremely low liquidity'', ''Very low liquidity'',
        ''Low liquidity ('', ''Very high liquidity'', ''Good liquidity''])"

definition isPoolCountReason :: "adjustment \<Rightarrow> bool" where
  "isPoolCountReason a =
     (headText a \<in> set [''No liquidity pools found, using fallback price source'',
        ''High market cap with no visible liquidity pools'',
        ''Recognized wrapped token pattern'',
        ''No liquidity pools found'',
        ''Single liquidity pool'',
        ''High market cap with single pool and no circulating supply data'',
        ''Extremely high market cap to liquidity ratio ('',
        ''High market cap to liquidity ratio ('',
        ''Low number of liquidity pools ('',
        ''Good number of liquidity pools (''])"

text \<open>
  The liquidity tier table as the specification words it: the first matching row of
  <100, <500, <MIN_LIQUIDITY_THRESHOLD, >100000, >20000.
\<close>

definition specLiquidityTier :: "real \<Rightarrow> int option" where
  "specLiquidityTier liq =
     (if liq < 100 then Some (- 70)
      else if liq < 500 then Some (- 50)
      else if liq < MIN_LIQUIDITY_THRESHOLD then Some (- 30)
      else if liq > 100000 then Some 20
      else if liq > 20000 then Some 10
      else None)"

text \<open>
  The trail between two states of the scorer. \<open>recordsExactly st st'\<close>: the lists of
  \<open>st\<close> are prefixes of the lists of \<open>st'\<close> (entries are only appended, after all
  earlier ones), and the score changed by exactly the sum of the points appended.
  \<open>recordsOneOf\<close> also names the runs of points that may have been appended, in their
  order.
\<close>

definition appendedPenalties :: "scoring \<Rightarrow> scoring \<Rightarrow> adjustment list" where
  "appendedPenalties st st' = drop (length (penalties st)) (penalties st')"

definition appendedBonuses :: "scoring \<Rightarrow> scoring \<Rightarrow> adjustment list" where
  "appendedBonuses st st' = drop (length (bonuses st)) (bonuses st')"

definition recordsExactly :: "scoring \<Rightarrow> scoring \<Rightarrow> bool" where
  "recordsExactly st st' =
     (take (length (penalties st)) (penalties st') = penalties st
      \<and> take (length (bonuses st)) (bonuses st') = bonuses st
      \<and> score st' =
          score st + sumPoints (appendedPenalties st st') + sumPoints (appendedBonuses st st'))"

definition recordsOneOf :: "int list list \<Rightarrow> int list list \<Rightarrow> scoring \<Rightarrow> scoring \<Rightarrow> bool" where
  "recordsOneOf penaltyRuns bonusRuns st st' =
     (recordsExactly st st'
      \<and> map points (appendedPenalties st st') \<in> set penaltyRuns
      \<and> map points (appendedBonuses st st') \<in> set bonusRuns)"

text \<open>
  The sum of a list of numbers as the source's \<open>reduce\<close> computes it: from 0, left to
  right, each addition rounded.
\<close>

definition roundedSum :: "(real \<Rightarrow> real) \<Rightarrow> real list \<Rightarrow> real" where
  "roundedSum rnd xs = foldl (\<lambda>s x. rnd (s + x)) 0 xs"

text \<open>The validator's low-trust caution, recognised by the text it starts with.\<close>

definition isLowTrustCaution :: "piece list \<Rightarrow> bool" where
  "isLowTrustCaution r = (case r of Txt s # _ \<Rightarrow> s = ''Low trust score ('' | _ \<Rightarrow> False)"

subsection \<open>Concrete inputs\<close>

text \<open>Two in-range pools: liquidities 100 and 300, prices 1 and 3.\<close>

definition twoPools :: "raw_pool list" where
  "twoPools = [\<lparr>dex = ''A'', token_1_amount = Some 100, token_2_amount = Some 100\<rparr>,
               \<lparr>dex = ''B'', token_1_amount = Some 300, token_2_amount = Some 100\<rparr>]"

definition twoPoolSource :: price_source where
  "twoPoolSource = \<lparr>poolsResponse = Resolved (Some twoPools),
      averagePriceTokenADA = Rejected ''unused'', averagePriceADAToken = Rejected ''unused''\<rparr>"

text \<open>
  The two pools above with a third between them, priced 10000 (10000 ADA against 1
  token), above MAX_REASONABLE_PRICE.
\<close>

definition outlierPools :: "raw_pool list" where
  "outlierPools = [\<lparr>dex = ''A'', token_1_amount = Some 100, token_2_amount = Some 100\<rparr>,
                   \<lparr>dex = ''X'', token_1_amount = Some 10000, token_2_amount = Some 1\<rparr>,
                   \<lparr>dex = ''B'', token_1_amount = Some 300, token_2_amount = Some 100\<rparr>]"

definition outlierSource :: price_source where
  "outlierSource = \<lparr>poolsResponse = Resolved (Some outlierPools),
      averagePriceTokenADA = Rejected ''unused'', averagePriceADAToken = Rejected ''unused''\<rparr>"

text \<open>One pool with 100 ADA against 50 tokens.\<close>

definition singlePoolSource :: price_source where
  "singlePoolSource =
     \<lparr>poolsResponse = Resolved (Some [\<lparr>dex = ''A'', token_1_amount = Some 100,
                                        token_2_amount = Some 50\<rparr>]),
      averagePriceTokenADA = Rejected ''unused'', averagePriceADAToken = Rejected ''unused''\<rparr>"

text \<open>No pools; the token-to-ADA average price is 0.5.\<close>

definition fallbackSource :: price_source where
  "fallbackSource =
     \<lparr>poolsResponse = Resolved (Some []),
      averagePriceTokenADA = Resolved (Some \<lparr>price_ba = Some 0.5, price_ab = None\<rparr>),
      averagePriceADAToken = Rejected ''unused''\<rparr>"

text \<open>
  One pool with nothing on either side; the token-to-ADA lookup has no price and the
  ADA-to-token lookup has price 5.
\<close>

definition reverseOnlySource :: price_source where
  "reverseOnlySource =
     \<lparr>poolsResponse = Resolved (Some [\<lparr>dex = ''A'', token_1_amount = Some 0,
                                        token_2_amount = Some 0\<rparr>]),
      averagePriceTokenADA = Resolved (Some \<lparr>price_ba = None, price_ab = None\<rparr>),
      averagePriceADAToken = Resolved (Some \<lparr>price_ba = None, price_ab = Some 5\<rparr>)\<rparr>"

text \<open>
  A trust assessment with score 35 that is not a honeypot, as the scorer produces it
  (no pools, liquidity 10000, market cap 100000, older than a year), with the flags
  \<open>enhanceTokenData\<close> attaches.
\<close>

definition cautionAssessment :: trust_assessment where
  "cautionAssessment =
     attachFlags False False None None 1000
       (calculateTrustScore ''token'' 0 False 10000 100000 1000 (Some ''SNEK'') 400 False)"

text \<open>
  A token priced from a single pool of 10000 ADA against 10000 tokens, with 600000
  tokens in circulation: market cap 600000, sixty times its liquidity.
\<close>

definition lowTrustToken :: token_summary where
  "lowTrustToken = \<lparr>s_token_id = ''token'', s_ticker = Some ''SNEK'',
     s_circulating_supply = Some 600000, s_total_supply = Some 600000\<rparr>"

definition lowTrustSource :: price_source where
  "lowTrustSource =
     \<lparr>poolsResponse = Resolved (Some [\<lparr>dex = ''A'', token_1_amount = Some 10000,
                                        token_2_amount = Some 10000\<rparr>]),
      averagePriceTokenADA = Rejected ''unused'', averagePriceADAToken = Rejected ''unused''\<rparr>"

text \<open>Report inputs: a record with a market cap and a score, and a degraded record.\<close>

definition scoredToken :: "string \<Rightarrow> real \<Rightarrow> int \<Rightarrow> enhanced_token" where
  "scoredToken name mcap s =
     \<lparr>token_id = name, market_cap = Some mcap, token_price = Some 1, liquidity = Some 1000,
      total_supply = None, circulating_supply = Some mcap, outliers_filtered = Some False,
      honeypot_risk = Some False,
      trust_assessment = Some \<lparr>score = s, penalties = [], bonuses = []\<rparr>,
      token_validation = None\<rparr>"

definition degradedToken :: "string \<Rightarrow> enhanced_token" where
  "degradedToken name =
     \<lparr>token_id = name, market_cap = None, token_price = None, liquidity = None,
      total_supply = None, circulating_supply = None, outliers_filtered = None,
      honeypot_risk = None, trust_assessment = None, token_validation = None\<rparr>"

text \<open>Scorer inputs, one for each trust level and for the rules under test.\<close>

definition exBlacklisted :: trust_assessment where
  "exBlacklisted = calculateTrustScore ''addr1w9zru...lfqw'' 0 False 0 0 0 None 0 False"

definition exLow :: trust_assessment where
  "exLow = calculateTrustScore ''token'' 0 False 10000 100000 1000 (Some ''SNEK'') 400 False"

definition exModerate :: trust_assessment where
  "exModerate = calculateTrustScore ''token'' 1 True 10000 100000 1000 None 0 False"

definition exGood :: trust_assessment where
  "exGood = calculateTrustScore ''token'' 1 False 10000 100000 1000 None 0 False"

definition exHigh :: trust_assessment where
  "exHigh =
     calculateTrustScore ''5b26e685cc5c9ad630bde3e3cd48c694436671f3d25df53777ca60ef4e564c''
       3 False 150000 100000 1000 (Some ''NVL'') 200 False"

definition exVeryLowLiquidity :: trust_assessment where
  "exVeryLowLiquidity = calculateTrustScore ''token'' 1 False 300 100000 1000 None 400 False"

definition exFallbackWithPools :: trust_assessment where
  "exFallbackWithPools =
     calculateTrustScore ''token'' 2 False 10000 100000 1000 (Some ''wBTC'') 0 True"

definition exFallbackNoPools :: trust_assessment where
  "exFallbackNoPools =
     calculateTrustScore ''token'' 0 False 0 2000000 1000 (Some ''wBTC'') 0 True"

definition exTokens :: "enhanced_token list" where
  "exTokens = [scoredToken ''a'' 5 50, degradedToken ''d'', scoredToken ''b'' 9 80,
               scoredToken ''c'' 7 39, scoredToken ''z'' 0 90]"

section \<open>Properties\<close>

subsection \<open>Evaluation and selector lemmas\<close>

lemmas scorer_defs =
  calculateTrustScore_def scoreAdjustments_def initialScoring_def classify_def
  checkWhitelist_def checkBlacklist_def checkCopycat_def checkSupplyDiscrepancy_def
  checkManipulation_def poolCountAssessment_def fallbackPoolAssessment_def
  regularPoolAssessment_def singlePoolAssessment_def liquidityAssessment_def
  suspiciousLiquidityAssessment_def ratioAssessment_def ageAssessment_def
  addScore_def pushPenalty_def pushBonus_def TRUSTED_TOKENS_def HONEYPOT_BLACKLIST_def
  truthyTicker_def someMatches_def

lemmas validator_defs =
  validateMarketCap_def checkEmptySuspiciousPools_def checkNoPoolsFound_def
  checkSupplyRedFlag_def checkMinimumLiquidity_def checkLiquidityRatio_def
  checkTrustScore_def checkZeroSupply_def pushReason_def invalidate_def truthy_def
  attachFlags_def

lemmas resolver_defs =
  calculateWeightedPrice_def toPricedPool_def amountOf_def reasonablePools_def
  hasExtremeOutliers_def isOutlier_def weightedAverage_def sumLiquidity_def
  suspiciousDistribution_def medianFallback_def noPoolData_def averagePriceLookup_def
  priceOf_def averagePriceResult_def emptySuspiciousPoolData_def

lemma sel_addScore [simp]:
  "score (addScore d st) = score st + d"
  "penalties (addScore d st) = penalties st"
  "bonuses (addScore d st) = bonuses st"
  by (simp_all add: addScore_def)

lemma sel_pushPenalty [simp]:
  "score (pushPenalty r p st) = score st"
  "penalties (pushPenalty r p st) = penalties st @ [\<lparr>reason = r, points = p\<rparr>]"
  "bonuses (pushPenalty r p st) = bonuses st"
  by (simp_all add: pushPenalty_def)

lemma sel_pushBonus [simp]:
  "score (pushBonus r p st) = score st"
  "penalties (pushBonus r p st) = penalties st"
  "bonuses (pushBonus r p st) = bonuses st @ [\<lparr>reason = r, points = p\<rparr>]"
  by (simp_all add: pushBonus_def)

lemma sel_calculateTrustScore:
  "score (calculateTrustScore tokenId nPools suspicious liq mcap circ ticker age fromAvg) =
     max 0 (score (scoreAdjustments tokenId nPools suspicious liq mcap circ ticker age fromAvg))"
  "penalties (calculateTrustScore tokenId nPools suspicious liq mcap circ ticker age fromAvg) =
     penalties (scoreAdjustments tokenId nPools suspicious liq mcap circ ticker age fromAvg)"
  "bonuses (calculateTrustScore tokenId nPools suspicious liq mcap circ ticker age fromAvg) =
     bonuses (scoreAdjustments tokenId nPools suspicious liq mcap circ ticker age fromAvg)"
  "trustLevel (calculateTrustScore tokenId nPools suspicious liq mcap circ ticker age fromAvg) =
     fst (classify (max 0 (score (scoreAdjustments tokenId nPools suspicious liq mcap circ
       ticker age fromAvg))) liq)"
  "isHoneypot (calculateTrustScore tokenId nPools suspicious liq mcap circ ticker age fromAvg) =
     snd (classify (max 0 (score (scoreAdjustments tokenId nPools suspicious liq mcap circ
       ticker age fromAvg))) liq)"
  by (simp_all add: calculateTrustScore_def Let_def)

lemmas pattern_defs =
  WRAPPED_TOKEN_PATTERNS_def matchesNoCase_def lowerCode_def isUpper_def
  COPYCAT_PATTERNS_def copycatLeadingI_def copycatTrailingCaps_def copycatEmbeddedCaps_def
  isAlpha_def isLower_def upt_conv_Cons

lemma eval_blacklisted:
  "calculateTrustScore ''addr1w9zru...lfqw'' 0 False 0 0 0 None 0 False =
     \<lparr>score = 0,
      penalties = [\<lparr>reason = [Txt ''Token is in honeypot blacklist''], points = - 100\<rparr>,
                   \<lparr>reason = [Txt ''No liquidity pools found''], points = - 80\<rparr>,
                   \<lparr>reason = [Txt ''Extremely low liquidity''], points = - 70\<rparr>],
      bonuses = [],
      trustLevel = VeryLow, isHoneypot = True, ta_priceFromAveragePrice = False,
      potentialCopycatDetected = None, supplyDiscrepancy = None,
      ta_noPoolsFound = None, ta_emptySuspiciousPools = None,
      circulatingSupply = None, trustScore = None, ta_reason = None\<rparr>"
  by (simp add: scorer_defs Let_def)

lemma eval_low:
  "calculateTrustScore ''token'' 0 False 10000 100000 1000 (Some ''SNEK'') 400 False =
     \<lparr>score = 35,
      penalties = [\<lparr>reason = [Txt ''No liquidity pools found''], points = - 80\<rparr>],
      bonuses = [\<lparr>reason = [Txt ''Token has existed for more than a year''], points = 15\<rparr>],
      trustLevel = Low, isHoneypot = False, ta_priceFromAveragePrice = False,
      potentialCopycatDetected = None, supplyDiscrepancy = None,
      ta_noPoolsFound = None, ta_emptySuspiciousPools = None,
      circulatingSupply = None, trustScore = None, ta_reason = None\<rparr>"
  by (simp add: scorer_defs Let_def)

lemma eval_moderate:
  "calculateTrustScore ''token'' (Suc 0) True 10000 100000 1000 None 0 False =
     \<lparr>score = 40,
      penalties = [\<lparr>reason = [Txt ''Single liquidity pool''], points = - 30\<rparr>,
        \<lparr>reason = [Txt ''Suspicious liquidity distribution with low total liquidity''],
         points = - 30\<rparr>],
      bonuses = [],
      trustLevel = Moderate, isHoneypot = False, ta_priceFromAveragePrice = False,
      potentialCopycatDetected = None, supplyDiscrepancy = None,
      ta_noPoolsFound = None, ta_emptySuspiciousPools = None,
      circulatingSupply = None, trustScore = None, ta_reason = None\<rparr>"
  by (simp add: scorer_defs Let_def)

lemma eval_very_low_liquidity:
  "calculateTrustScore ''token'' (Suc 0) False 300 100000 1000 None 400 False =
     \<lparr>score = 0,
      penalties = [\<lparr>reason = [Txt ''Single liquidity pool''], points = - 30\<rparr>,
        \<lparr>reason = [Txt ''Extremely high market cap to liquidity ratio ('',
                     Fixed2 (1000 / 3), Txt '':1)''], points = - 40\<rparr>,
        \<lparr>reason = [Txt ''Very low liquidity''], points = - 50\<rparr>],
      bonuses = [\<lparr>reason = [Txt ''Token has existed for more than a year''], points = 15\<rparr>],
      trustLevel = VeryLow, isHoneypot = True, ta_priceFromAveragePrice = False,
      potentialCopycatDetected = None, supplyDiscrepancy = None,
      ta_noPoolsFound = None, ta_emptySuspiciousPools = None,
      circulatingSupply = None, trustScore = None, ta_reason = None\<rparr>"
  by (simp add: scorer_defs Let_def)

lemma eval_good:
  "calculateTrustScore ''token'' (Suc 0) False 10000 100000 1000 None 0 False =
     \<lparr>score = 70,
      penalties = [\<lparr>reason = [Txt ''Single liquidity pool''], points = - 30\<rparr>],
      bonuses = [],
      trustLevel = Good, isHoneypot = False, ta_priceFromAveragePrice = False,
      potentialCopycatDetected = None, supplyDiscrepancy = None,
      ta_noPoolsFound = None, ta_emptySuspiciousPools = None,
      circulatingSupply = None, trustScore = None, ta_reason = None\<rparr>"
  by (simp add: scorer_defs Let_def)

lemma eval_high:
  "calculateTrustScore ''5b26e685cc5c9ad630bde3e3cd48c694436671f3d25df53777ca60ef4e564c''
     3 False 150000 100000 1000 (Some ''NVL'') 200 False =
     \<lparr>score = 190,
      penalties = [],
      bonuses = [\<lparr>reason = [Txt ''Token is in trusted whitelist''], points = 50\<rparr>,
        \<lparr>reason = [Txt ''Good number of liquidity pools ('', Num 3, Txt '')''], points = 10\<rparr>,
        \<lparr>reason = [Txt ''Very high liquidity''], points = 20\<rparr>,
        \<lparr>reason = [Txt ''Token has existed for more than 6 months''], points = 10\<rparr>],
      trustLevel = High, isHoneypot = False, ta_priceFromAveragePrice = False,
      potentialCopycatDetected = None, supplyDiscrepancy = None,
      ta_noPoolsFound = None, ta_emptySuspiciousPools = None,
      circulatingSupply = None, trustScore = None, ta_reason = None\<rparr>"
  by (simp add: scorer_defs Let_def)

lemma eval_fallback_with_pools:
  "calculateTrustScore ''token'' 2 False 10000 100000 1000 (Some ''wBTC'') 0 True =
     \<lparr>score = 100, penalties = [], bonuses = [],
      trustLevel = High, isHoneypot = False, ta_priceFromAveragePrice = True,
      potentialCopycatDetected = None, supplyDiscrepancy = None,
      ta_noPoolsFound = None, ta_emptySuspiciousPools = None,
      circulatingSupply = None, trustScore = None, ta_reason = None\<rparr>"
  by (simp add: scorer_defs Let_def)

lemma eval_fallback_no_pools:
  "calculateTrustScore ''token'' 0 False 0 2000000 1000 (Some ''wBTC'') 0 True =
     \<lparr>score = 0,
      penalties = [\<lparr>reason = [Txt ''Possible copycat token with suspicious name pattern''], points = - 25\<rparr>,
         \<lparr>reason = [Txt ''No liquidity pools found, using fallback price source''], points = - 40\<rparr>,
         \<lparr>reason = [Txt ''High market cap with no visible liquidity pools''], points = - 20\<rparr>,
         \<lparr>reason = [Txt ''Extremely low liquidity''], points = - 70\<rparr>],
      bonuses = [\<lparr>reason = [Txt ''Recognized wrapped token pattern''], points = 30\<rparr>],
      trustLevel = VeryLow, isHoneypot = True, ta_priceFromAveragePrice = True,
      potentialCopycatDetected = None, supplyDiscrepancy = None,
      ta_noPoolsFound = None, ta_emptySuspiciousPools = None,
      circulatingSupply = None, trustScore = None, ta_reason = None\<rparr>"
  by (simp add: scorer_defs Let_def pattern_defs)

subsection \<open>The audit trail of the Trust Scorer\<close>

lemma auditOk_penalty:
  "auditOk st \<Longrightarrow> p < 0 \<Longrightarrow> auditOk (addScore p (pushPenalty r p st))"
  by (simp add: auditOk_def sumPoints_def)

lemma auditOk_bonus:
  "auditOk st \<Longrightarrow> 0 < p \<Longrightarrow> auditOk (addScore p (pushBonus r p st))"
  by (simp add: auditOk_def sumPoints_def)

lemma auditOk_initial: "auditOk initialScoring"
  by (simp add: auditOk_def sumPoints_def initialScoring_def)

lemma auditOk_checkWhitelist: "auditOk st \<Longrightarrow> auditOk (checkWhitelist t st)"
  by (simp add: checkWhitelist_def auditOk_bonus)

lemma auditOk_checkBlacklist: "auditOk st \<Longrightarrow> auditOk (checkBlacklist t st)"
  by (simp add: checkBlacklist_def auditOk_penalty)

lemma auditOk_checkCopycat: "auditOk st \<Longrightarrow> auditOk (checkCopycat t m st)"
  by (simp add: checkCopycat_def auditOk_penalty)

lemma auditOk_checkSupplyDiscrepancy:
  "auditOk st \<Longrightarrow> auditOk (checkSupplyDiscrepancy m c l st)"
  by (simp add: checkSupplyDiscrepancy_def auditOk_penalty)

lemma auditOk_checkManipulation: "auditOk st \<Longrightarrow> auditOk (checkManipulation l m c st)"
  by (simp add: checkManipulation_def Let_def auditOk_penalty)

lemma auditOk_fallbackPoolAssessment:
  "auditOk st \<Longrightarrow> auditOk (fallbackPoolAssessment n m t st)"
  by (simp add: fallbackPoolAssessment_def Let_def auditOk_penalty auditOk_bonus)

lemma auditOk_singlePoolAssessment:
  "auditOk st \<Longrightarrow> auditOk (singlePoolAssessment m c l st)"
  by (simp add: singlePoolAssessment_def Let_def auditOk_penalty)

lemma auditOk_regularPoolAssessment:
  "auditOk st \<Longrightarrow> auditOk (regularPoolAssessment n m c l st)"
  by (simp add: regularPoolAssessment_def auditOk_penalty auditOk_bonus
        auditOk_singlePoolAssessment)

lemma auditOk_poolCountAssessment:
  "auditOk st \<Longrightarrow> auditOk (poolCountAssessment f n m c l t st)"
  by (simp add: poolCountAssessment_def auditOk_fallbackPoolAssessment
        auditOk_regularPoolAssessment)

lemma auditOk_liquidityAssessment: "auditOk st \<Longrightarrow> auditOk (liquidityAssessment l st)"
  by (simp add: liquidityAssessment_def auditOk_penalty auditOk_bonus)

lemma auditOk_suspiciousLiquidityAssessment:
  "auditOk st \<Longrightarrow> auditOk (suspiciousLiquidityAssessment s l st)"
  by (simp add: suspiciousLiquidityAssessment_def auditOk_penalty)

lemma auditOk_ratioAssessment: "auditOk st \<Longrightarrow> auditOk (ratioAssessment m l st)"
  by (simp add: ratioAssessment_def Let_def auditOk_penalty)

lemma auditOk_ageAssessment: "auditOk st \<Longrightarrow> auditOk (ageAssessment a st)"
  by (simp add: ageAssessment_def auditOk_bonus)

lemma auditOk_scoreAdjustments:
  "auditOk (scoreAdjustments tokenId nPools suspicious liq mcap circ ticker age fromAvg)"
  unfolding scoreAdjustments_def
  by (intro auditOk_ageAssessment auditOk_ratioAssessment
        auditOk_suspiciousLiquidityAssessment auditOk_liquidityAssessment
        auditOk_poolCountAssessment auditOk_checkManipulation
        auditOk_checkSupplyDiscrepancy auditOk_checkCopycat auditOk_checkBlacklist
        auditOk_checkWhitelist auditOk_initial)

text \<open>
  Each block only appends to the trail, and changes the score by exactly the sum of
  the points it appends; the runs of points it can append are those of the rule table,
  in the table's order.
\<close>

lemmas records_defs =
  recordsOneOf_def recordsExactly_def appendedPenalties_def appendedBonuses_def sumPoints_def

lemma records_checkWhitelist:
  "recordsOneOf [[]] [[], [50]] st (checkWhitelist tokenId st)"
  by (simp add: records_defs checkWhitelist_def)

lemma records_checkBlacklist:
  "recordsOneOf [[], [- 100]] [[]] st (checkBlacklist tokenId st)"
  by (simp add: records_defs checkBlacklist_def)

lemma records_checkCopycat:
  "recordsOneOf [[], [- 25]] [[]] st (checkCopycat ticker mcap st)"
  by (simp add: records_defs checkCopycat_def)

lemma records_checkSupplyDiscrepancy:
  "recordsOneOf [[], [- 50]] [[]] st (checkSupplyDiscrepancy mcap circ liq st)"
  by (simp add: records_defs checkSupplyDiscrepancy_def)

lemma records_checkManipulation:
  "recordsOneOf [[], [- 40], [- 30], [- 40, - 30]] [[]] st (checkManipulation liq mcap circ st)"
  by (simp add: records_defs checkManipulation_def Let_def)

lemma records_fallbackPoolAssessment:
  "recordsOneOf [[], [- 40], [- 40, - 20]] [[], [30]] st
     (fallbackPoolAssessment nPools mcap ticker st)"
  by (simp add: records_defs fallbackPoolAssessment_def Let_def)

lemma records_singlePoolAssessment:
  "recordsOneOf [[- 30], [- 30, - 50], [- 30, - 40], [- 30, - 20], [- 30, - 50, - 40],
                 [- 30, - 50, - 20]] [[]] st
     (singlePoolAssessment mcap circ liq st)"
  by (simp add: records_defs singlePoolAssessment_def Let_def)

lemma records_regularPoolAssessment:
  "recordsOneOf [[], [- 80], [- 30], [- 30, - 50], [- 30, - 40], [- 30, - 20],
                 [- 30, - 50, - 40], [- 30, - 50, - 20], [- 10]] [[], [10]] st
     (regularPoolAssessment nPools mcap circ liq st)"
  using records_singlePoolAssessment [of st mcap circ liq]
  by (auto simp add: records_defs regularPoolAssessment_def)

lemma records_poolCountAssessment:
  "recordsOneOf [[], [- 40], [- 40, - 20], [- 80], [- 30], [- 30, - 50], [- 30, - 40],
                 [- 30, - 20], [- 30, - 50, - 40], [- 30, - 50, - 20], [- 10]]
     [[], [30], [10]] st
     (poolCountAssessment fromAvg nPools mcap circ liq ticker st)"
  using records_fallbackPoolAssessment [of st nPools mcap ticker]
    records_regularPoolAssessment [of st nPools mcap circ liq]
  by (cases fromAvg) (auto simp add: recordsOneOf_def poolCountAssessment_def)

lemma records_liquidityAssessment:
  "recordsOneOf [[], [- 70], [- 50]] [[], [20], [10]] st (liquidityAssessment liq st)"
  by (simp add: records_defs liquidityAssessment_def)

lemma records_suspiciousLiquidityAssessment:
  "recordsOneOf [[], [- 30], [- 15], [- 5]] [[]] st
     (suspiciousLiquidityAssessment suspicious liq st)"
  by (simp add: records_defs suspiciousLiquidityAssessment_def)

lemma records_ratioAssessment:
  "recordsOneOf [[], [- 40]] [[]] st (ratioAssessment mcap liq st)"
  by (simp add: records_defs ratioAssessment_def Let_def)

lemma records_ageAssessment:
  "recordsOneOf [[]] [[], [15], [10], [5]] st (ageAssessment age st)"
  by (simp add: records_defs ageAssessment_def)

text \<open>
  Claim C5. For every input of \<open>calculateTrustScore\<close>, every recorded penalty has
  strictly negative points, every recorded bonus has strictly positive points, and the
  reported score is the maximum of 0 and 100 plus the sum of all recorded bonus points
  plus the sum of all recorded penalty points. Every adjustment is recorded with its
  exact signed delta, in application order: starting from score 100 and empty lists,
  each of the ten blocks, in the order the source runs them, leaves the entries
  recorded so far in place, appends after them one of the runs of points the rule
  table allows it (in the table's order), and changes the score by exactly the sum of
  the points it appended; the returned lists are the lists after the last block, and
  the returned score is the score after the last block, floored at 0.
\<close>

theorem C5_audit_trail:
  "let r = calculateTrustScore tokenId nPools suspicious liq mcap circ ticker age fromAvg;
       s0 = initialScoring;
       s1 = checkWhitelist tokenId s0;
       s2 = checkBlacklist tokenId s1;
       s3 = checkCopycat ticker mcap s2;
       s4 = checkSupplyDiscrepancy mcap circ liq s3;
       s5 = checkManipulation liq mcap circ s4;
       s6 = poolCountAssessment fromAvg nPools mcap circ liq ticker s5;
       s7 = liquidityAssessment liq s6;
       s8 = suspiciousLiquidityAssessment suspicious liq s7;
       s9 = ratioAssessment mcap liq s8;
       s10 = ageAssessment age s9
   in list_all (\<lambda>a. points a < 0) (penalties r)
      \<and> list_all (\<lambda>a. points a > 0) (bonuses r)
      \<and> score r = max 0 (100 + sumPoints (bonuses r) + sumPoints (penalties r))
      \<and> score s0 = 100 \<and> penalties s0 = [] \<and> bonuses s0 = []
      \<and> recordsOneOf [[]] [[], [50]] s0 s1
      \<and> recordsOneOf [[], [- 100]] [[]] s1 s2
      \<and> recordsOneOf [[], [- 25]] [[]] s2 s3
      \<and> recordsOneOf [[], [- 50]] [[]] s3 s4
      \<and> recordsOneOf [[], [- 40], [- 30], [- 40, - 30]] [[]] s4 s5
      \<and> recordsOneOf [[], [- 40], [- 40, - 20], [- 80], [- 30], [- 30, - 50], [- 30, - 40],
                        [- 30, - 20], [- 30, - 50, - 40], [- 30, - 50, - 20], [- 10]]
            [[], [30], [10]] s5 s6
      \<and> recordsOneOf [[], [- 70], [- 50]] [[], [20], [10]] s6 s7
      \<and> recordsOneOf [[], [- 30], [- 15], [- 5]] [[]] s7 s8
      \<and> recordsOneOf [[], [- 40]] [[]] s8 s9
      \<and> recordsOneOf [[]] [[], [15], [10], [5]] s9 s10
      \<and> penalties r = penalties s10 \<and> bonuses r = bonuses s10
      \<and> score r = max 0 (score s10)"
proof -
  have audit:
    "list_all (\<lambda>a. points a < 0)
       (penalties (calculateTrustScore tokenId nPools suspicious liq mcap circ ticker age
          fromAvg))
     \<and> list_all (\<lambda>a. points a > 0)
       (bonuses (calculateTrustScore tokenId nPools suspicious liq mcap circ ticker age
          fromAvg))
     \<and> score (calculateTrustScore tokenId nPools suspicious liq mcap circ ticker age fromAvg) =
         max 0 (100
           + sumPoints (bonuses (calculateTrustScore tokenId nPools suspicious liq mcap circ
               ticker age fromAvg))
           + sumPoints (penalties (calculateTrustScore tokenId nPools suspicious liq mcap circ
               ticker age fromAvg)))"
    using auditOk_scoreAdjustments [of tokenId nPools suspicious liq mcap circ ticker age fromAvg]
    by (simp add: sel_calculateTrustScore auditOk_def)
  show ?thesis
    unfolding Let_def
    by (intro conjI records_checkWhitelist records_checkBlacklist records_checkCopycat
          records_checkSupplyDiscrepancy records_checkManipulation records_poolCountAssessment
          records_liquidityAssessment records_suspiciousLiquidityAssessment
          records_ratioAssessment records_ageAssessment
          audit [THEN conjunct1] audit [THEN conjunct2, THEN conjunct1]
          audit [THEN conjunct2, THEN conjunct2])
       (simp_all add: initialScoring_def sel_calculateTrustScore scoreAdjustments_def)
qed

theorem C5_audit_trail_witness:
  "list_all (\<lambda>a. points a < 0) (penalties exFallbackNoPools)
   \<and> list_all (\<lambda>a. points a > 0) (bonuses exFallbackNoPools)
   \<and> map points (penalties exFallbackNoPools) = [- 25, - 40, - 20, - 70]
   \<and> map points (bonuses exFallbackNoPools) = [30]
   \<and> sumPoints (penalties exFallbackNoPools) = - 155
   \<and> sumPoints (bonuses exFallbackNoPools) = 30
   \<and> score exFallbackNoPools = 0"
  unfolding exFallbackNoPools_def
  using C5_audit_trail [of "''token''" 0 False 0 2000000 1000 "Some ''wBTC''" 0 True]
  by (simp add: eval_fallback_no_pools sumPoints_def)

subsection \<open>Score floor and classification\<close>

lemma score_checkWhitelist_blacklisted:
  "t \<in> set HONEYPOT_BLACKLIST \<Longrightarrow> score (checkWhitelist t st) = score st"
  by (auto simp add: checkWhitelist_def HONEYPOT_BLACKLIST_def TRUSTED_TOKENS_def)

lemma score_checkBlacklist_blacklisted:
  "t \<in> set HONEYPOT_BLACKLIST \<Longrightarrow> score (checkBlacklist t st) = score st - 100"
  by (simp add: checkBlacklist_def)

lemma score_checkCopycat_le: "score (checkCopycat t m st) \<le> score st"
  by (simp add: checkCopycat_def)

lemma score_checkSupplyDiscrepancy_le: "score (checkSupplyDiscrepancy m c l st) \<le> score st"
  by (simp add: checkSupplyDiscrepancy_def)

lemma score_checkManipulation_le: "score (checkManipulation l m c st) \<le> score st"
  by (simp add: checkManipulation_def Let_def)

lemma score_regularPoolAssessment_zero:
  "score (poolCountAssessment False 0 m c l t st) = score st - 80"
  by (simp add: poolCountAssessment_def regularPoolAssessment_def)

lemma score_liquidityAssessment_le: "score (liquidityAssessment l st) \<le> score st + 20"
  by (simp add: liquidityAssessment_def)

lemma score_suspiciousLiquidityAssessment_le:
  "score (suspiciousLiquidityAssessment s l st) \<le> score st"
  by (simp add: suspiciousLiquidityAssessment_def)

lemma score_ratioAssessment_le: "score (ratioAssessment m l st) \<le> score st"
  by (simp add: ratioAssessment_def Let_def)

lemma score_ageAssessment_le: "score (ageAssessment a st) \<le> score st + 15"
  by (simp add: ageAssessment_def)

lemma score_blacklisted_no_pools:
  assumes "tokenId \<in> set HONEYPOT_BLACKLIST"
  shows "score (scoreAdjustments tokenId 0 suspicious liq mcap circ ticker age False) \<le> - 45"
proof -
  let ?s0 = "checkBlacklist tokenId (checkWhitelist tokenId initialScoring)"
  let ?s1 = "checkManipulation liq mcap circ
               (checkSupplyDiscrepancy mcap circ liq (checkCopycat ticker mcap ?s0))"
  let ?s2 = "poolCountAssessment False 0 mcap circ liq ticker ?s1"
  let ?s3 = "liquidityAssessment liq ?s2"
  let ?s4 = "ratioAssessment mcap liq (suspiciousLiquidityAssessment suspicious liq ?s3)"
  have "score ?s0 = 0"
    using assms
    by (simp add: score_checkBlacklist_blacklisted score_checkWhitelist_blacklisted
          initialScoring_def)
  moreover have "score ?s1 \<le> score ?s0"
    by (meson order_trans score_checkManipulation_le score_checkSupplyDiscrepancy_le
          score_checkCopycat_le)
  moreover have "score ?s2 = score ?s1 - 80"
    by (rule score_regularPoolAssessment_zero)
  moreover have "score ?s3 \<le> score ?s2 + 20"
    by (rule score_liquidityAssessment_le)
  moreover have "score ?s4 \<le> score ?s3"
    by (meson order_trans score_ratioAssessment_le score_suspiciousLiquidityAssessment_le)
  moreover have "score (ageAssessment age ?s4) \<le> score ?s4 + 15"
    by (rule score_ageAssessment_le)
  ultimately show ?thesis
    unfolding scoreAdjustments_def by linarith
qed

text \<open>
  Claim C2. For every input of \<open>calculateTrustScore\<close> the reported score is at least 0,
  and the classification follows the score: below 20 is VeryLow and a honeypot; from
  20 to below 40 is Low, a honeypot exactly when the total liquidity is below 5000;
  from 40 to below 60 is Moderate, from 60 to below 80 Good, from 80 High, none of
  them a honeypot. When the recorded adjustments sum below -100 the score is exactly
  0, VeryLow, a honeypot; a blacklisted token with no pools (priced from pools, not
  from the fallback endpoint) is such an input.
\<close>

theorem C2_floor_and_classification:
  "let r = calculateTrustScore tokenId nPools suspicious liq mcap circ ticker age fromAvg
   in 0 \<le> score r
    \<and> (score r < 20 \<longrightarrow> trustLevel r = VeryLow \<and> isHoneypot r)
    \<and> (20 \<le> score r \<and> score r < 40 \<longrightarrow>
          trustLevel r = Low \<and> isHoneypot r = (liq < 5000))
    \<and> (40 \<le> score r \<and> score r < 60 \<longrightarrow> trustLevel r = Moderate \<and> \<not> isHoneypot r)
    \<and> (60 \<le> score r \<and> score r < 80 \<longrightarrow> trustLevel r = Good \<and> \<not> isHoneypot r)
    \<and> (80 \<le> score r \<longrightarrow> trustLevel r = High \<and> \<not> isHoneypot r)
    \<and> (sumPoints (bonuses r) + sumPoints (penalties r) < - 100 \<longrightarrow>
          score r = 0 \<and> trustLevel r = VeryLow \<and> isHoneypot r)
    \<and> (tokenId \<in> set HONEYPOT_BLACKLIST \<and> nPools = 0 \<and> \<not> fromAvg \<longrightarrow>
          score r = 0 \<and> trustLevel r = VeryLow \<and> isHoneypot r)"
proof -
  let ?st = "scoreAdjustments tokenId nPools suspicious liq mcap circ ticker age fromAvg"
  have sum: "score ?st = 100 + sumPoints (bonuses ?st) + sumPoints (penalties ?st)"
    using auditOk_scoreAdjustments [of tokenId nPools suspicious liq mcap circ ticker age fromAvg]
    by (simp add: auditOk_def)
  have bl: "tokenId \<in> set HONEYPOT_BLACKLIST \<and> nPools = 0 \<and> \<not> fromAvg \<longrightarrow> score ?st \<le> - 45"
    using score_blacklisted_no_pools [of tokenId suspicious liq mcap circ ticker age] by auto
  have cls: "0 \<le> max 0 (score ?st)" by simp
  show ?thesis
    unfolding Let_def sel_calculateTrustScore classify_def
    using sum bl by (intro conjI impI; simp; linarith?)
qed

theorem C2_floor_and_classification_witness:
  "''addr1w9zru...lfqw'' \<in> set HONEYPOT_BLACKLIST
   \<and> sumPoints (bonuses exBlacklisted) + sumPoints (penalties exBlacklisted) < - 100
   \<and> score exBlacklisted = 0 \<and> trustLevel exBlacklisted = VeryLow
   \<and> isHoneypot exBlacklisted
   \<and> score exLow = 35 \<and> trustLevel exLow = Low \<and> isHoneypot exLow = False
   \<and> score exModerate = 40 \<and> trustLevel exModerate = Moderate
   \<and> isHoneypot exModerate = False
   \<and> score exGood = 70 \<and> trustLevel exGood = Good \<and> isHoneypot exGood = False
   \<and> score exHigh = 190 \<and> trustLevel exHigh = High \<and> isHoneypot exHigh = False"
  unfolding exBlacklisted_def exLow_def exModerate_def exGood_def exHigh_def
  using
    C2_floor_and_classification [of "''addr1w9zru...lfqw''" 0 False 0 0 0 None 0 False]
    C2_floor_and_classification [of "''token''" 0 False 10000 100000 1000 "Some ''SNEK''" 400
      False]
    C2_floor_and_classification [of "''token''" 1 True 10000 100000 1000 None 0 False]
    C2_floor_and_classification [of "''token''" 1 False 10000 100000 1000 None 0 False]
    C2_floor_and_classification
      [of "''5b26e685cc5c9ad630bde3e3cd48c694436671f3d25df53777ca60ef4e564c''" 3 False 150000
        100000 1000 "Some ''NVL''" 200 False]
  by (simp add: Let_def eval_blacklisted eval_low eval_moderate eval_good eval_high
        sumPoints_def HONEYPOT_BLACKLIST_def)

subsection \<open>Liquidity tiers\<close>

lemma tier_checkWhitelist [simp]:
  "filter isLiquidityTier (penalties (checkWhitelist t st)) = filter isLiquidityTier (penalties st)"
  "filter isLiquidityTier (bonuses (checkWhitelist t st)) = filter isLiquidityTier (bonuses st)"
  by (simp_all add: checkWhitelist_def isLiquidityTier_def headText_def)

lemma tier_checkBlacklist [simp]:
  "filter isLiquidityTier (penalties (checkBlacklist t st)) = filter isLiquidityTier (penalties st)"
  "filter isLiquidityTier (bonuses (checkBlacklist t st)) = filter isLiquidityTier (bonuses st)"
  by (simp_all add: checkBlacklist_def isLiquidityTier_def headText_def)

lemma tier_checkCopycat [simp]:
  "filter isLiquidityTier (penalties (checkCopycat t m st)) = filter isLiquidityTier (penalties st)"
  "filter isLiquidityTier (bonuses (checkCopycat t m st)) = filter isLiquidityTier (bonuses st)"
  by (simp_all add: checkCopycat_def isLiquidityTier_def headText_def)

lemma tier_checkSupplyDiscrepancy [simp]:
  "filter isLiquidityTier (penalties (checkSupplyDiscrepancy m c l st)) = filter isLiquidityTier (penalties st)"
  "filter isLiquidityTier (bonuses (checkSupplyDiscrepancy m c l st)) = filter isLiquidityTier (bonuses st)"
  by (simp_all add: checkSupplyDiscrepancy_def isLiquidityTier_def headText_def)

lemma tier_checkManipulation [simp]:
  "filter isLiquidityTier (penalties (checkManipulation l m c st)) = filter isLiquidityTier (penalties st)"
  "filter isLiquidityTier (bonuses (checkManipulation l m c st)) = filter isLiquidityTier (bonuses st)"
  by (simp_all add: checkManipulation_def Let_def isLiquidityTier_def headText_def)

lemma tier_fallbackPoolAssessment [simp]:
  "filter isLiquidityTier (penalties (fallbackPoolAssessment n m t st)) = filter isLiquidityTier (penalties st)"
  "filter isLiquidityTier (bonuses (fallbackPoolAssessment n m t st)) = filter isLiquidityTier (bonuses st)"
  by (simp_all add: fallbackPoolAssessment_def Let_def isLiquidityTier_def headText_def)

lemma tier_singlePoolAssessment [simp]:
  "filter isLiquidityTier (penalties (singlePoolAssessment m c l st)) = filter isLiquidityTier (penalties st)"
  "filter isLiquidityTier (bonuses (singlePoolAssessment m c l st)) = filter isLiquidityTier (bonuses st)"
  by (simp_all add: singlePoolAssessment_def Let_def isLiquidityTier_def headText_def)

lemma tier_regularPoolAssessment [simp]:
  "filter isLiquidityTier (penalties (regularPoolAssessment n m c l st)) = filter isLiquidityTier (penalties st)"
  "filter isLiquidityTier (bonuses (regularPoolAssessment n m c l st)) = filter isLiquidityTier (bonuses st)"
  by (simp_all add: regularPoolAssessment_def isLiquidityTier_def headText_def)

lemma tier_poolCountAssessment [simp]:
  "filter isLiquidityTier (penalties (poolCountAssessment f n m c l t st)) = filter isLiquidityTier (penalties st)"
  "filter isLiquidityTier (bonuses (poolCountAssessment f n m c l t st)) = filter isLiquidityTier (bonuses st)"
  by (simp_all add: poolCountAssessment_def)

lemma tier_suspiciousLiquidityAssessment [simp]:
  "filter isLiquidityTier (penalties (suspiciousLiquidityAssessment s l st)) = filter isLiquidityTier (penalties st)"
  "filter isLiquidityTier (bonuses (suspiciousLiquidityAssessment s l st)) = filter isLiquidityTier (bonuses st)"
  by (simp_all add: suspiciousLiquidityAssessment_def isLiquidityTier_def headText_def)

lemma tier_ratioAssessment [simp]:
  "filter isLiquidityTier (penalties (ratioAssessment m l st)) = filter isLiquidityTier (penalties st)"
  "filter isLiquidityTier (bonuses (ratioAssessment m l st)) = filter isLiquidityTier (bonuses st)"
  by (simp_all add: ratioAssessment_def Let_def isLiquidityTier_def headText_def)

lemma tier_ageAssessment [simp]:
  "filter isLiquidityTier (penalties (ageAssessment a st)) = filter isLiquidityTier (penalties st)"
  "filter isLiquidityTier (bonuses (ageAssessment a st)) = filter isLiquidityTier (bonuses st)"
  by (simp_all add: ageAssessment_def isLiquidityTier_def headText_def)

lemma tier_liquidityAssessment:
  "filter isLiquidityTier (penalties (liquidityAssessment liq st)) =
     filter isLiquidityTier (penalties st) @
       (if liq < 100 then [\<lparr>reason = [Txt ''Extremely low liquidity''], points = - 70\<rparr>]
        else if liq < 500 then [\<lparr>reason = [Txt ''Very low liquidity''], points = - 50\<rparr>]
        else [])"
  "filter isLiquidityTier (bonuses (liquidityAssessment liq st)) =
     filter isLiquidityTier (bonuses st) @
       (if liq < 500 then []
        else if liq > 100000 then [\<lparr>reason = [Txt ''Very high liquidity''], points = 20\<rparr>]
        else if liq > 20000 then [\<lparr>reason = [Txt ''Good liquidity''], points = 10\<rparr>]
        else [])"
  by (simp_all add: liquidityAssessment_def isLiquidityTier_def headText_def)

lemma score_liquidityAssessment:
  "score (liquidityAssessment liq st) =
     score st + (case specLiquidityTier liq of None \<Rightarrow> 0 | Some p \<Rightarrow> p)"
  by (simp add: liquidityAssessment_def specLiquidityTier_def)

lemma tier_scoreAdjustments:
  "filter isLiquidityTier
     (penalties (scoreAdjustments tokenId nPools suspicious liq mcap circ ticker age fromAvg)) =
       (if liq < 100 then [\<lparr>reason = [Txt ''Extremely low liquidity''], points = - 70\<rparr>]
        else if liq < 500 then [\<lparr>reason = [Txt ''Very low liquidity''], points = - 50\<rparr>]
        else [])"
  "filter isLiquidityTier
     (bonuses (scoreAdjustments tokenId nPools suspicious liq mcap circ ticker age fromAvg)) =
       (if liq < 500 then []
        else if liq > 100000 then [\<lparr>reason = [Txt ''Very high liquidity''], points = 20\<rparr>]
        else if liq > 20000 then [\<lparr>reason = [Txt ''Good liquidity''], points = 10\<rparr>]
        else [])"
  by (simp_all add: scoreAdjustments_def tier_liquidityAssessment initialScoring_def)

text \<open>
  Claim C8. The liquidity tiers are mutually exclusive and evaluated top-down: for
  every total liquidity the audit trail holds at most one liquidity-tier adjustment,
  the first matching row of the table <100: -70, <500: -50, <500: -30, >100000: +20,
  >20000: +10, and the liquidity block changes the score by that amount. For a total
  liquidity in [500, 20000] no tier adjustment is recorded and the block leaves the
  state alone; in [100, 500) the recorded tier adjustment is the -50 penalty.
\<close>

theorem C8_liquidity_tiers:
  "let r = calculateTrustScore tokenId nPools suspicious liq mcap circ ticker age fromAvg;
       tier = filter isLiquidityTier (penalties r) @ filter isLiquidityTier (bonuses r)
   in map points tier = (case specLiquidityTier liq of None \<Rightarrow> [] | Some p \<Rightarrow> [p])
      \<and> length tier \<le> 1
      \<and> score (liquidityAssessment liq st) =
          score st + (case specLiquidityTier liq of None \<Rightarrow> 0 | Some p \<Rightarrow> p)
      \<and> (500 \<le> liq \<and> liq \<le> 20000 \<longrightarrow> tier = [] \<and> liquidityAssessment liq st = st)
      \<and> (100 \<le> liq \<and> liq < 500 \<longrightarrow>
            tier = [\<lparr>reason = [Txt ''Very low liquidity''], points = - 50\<rparr>])"
  by (simp add: Let_def sel_calculateTrustScore tier_scoreAdjustments score_liquidityAssessment
        specLiquidityTier_def liquidityAssessment_def)

theorem C8_liquidity_tiers_witness:
  "(500::real) \<le> 10000 \<and> (10000::real) \<le> 20000
   \<and> filter isLiquidityTier (penalties exLow) @ filter isLiquidityTier (bonuses exLow) = []
   \<and> liquidityAssessment 10000 initialScoring = initialScoring
   \<and> (100::real) \<le> 300 \<and> (300::real) < 500
   \<and> filter isLiquidityTier (penalties exVeryLowLiquidity)
         @ filter isLiquidityTier (bonuses exVeryLowLiquidity) =
       [\<lparr>reason = [Txt ''Very low liquidity''], points = - 50\<rparr>]"
  unfolding exLow_def exVeryLowLiquidity_def
  using
    C8_liquidity_tiers [of "''token''" 0 False 10000 100000 1000 "Some ''SNEK''" 400 False
      initialScoring]
    C8_liquidity_tiers [of "''token''" 1 False 300 100000 1000 None 400 False initialScoring]
  by (simp add: Let_def)

subsection \<open>Pool-count rules under the fallback price\<close>

lemma pool_checkWhitelist [simp]:
  "filter isPoolCountReason (penalties (checkWhitelist t st)) = filter isPoolCountReason (penalties st)"
  "filter isPoolCountReason (bonuses (checkWhitelist t st)) = filter isPoolCountReason (bonuses st)"
  by (simp_all add: checkWhitelist_def isPoolCountReason_def headText_def)

lemma pool_checkBlacklist [simp]:
  "filter isPoolCountReason (penalties (checkBlacklist t st)) = filter isPoolCountReason (penalties st)"
  "filter isPoolCountReason (bonuses (checkBlacklist t st)) = filter isPoolCountReason (bonuses st)"
  by (simp_all add: checkBlacklist_def isPoolCountReason_def headText_def)

lemma pool_checkCopycat [simp]:
  "filter isPoolCountReason (penalties (checkCopycat t m st)) = filter isPoolCountReason (penalties st)"
  "filter isPoolCountReason (bonuses (checkCopycat t m st)) = filter isPoolCountReason (bonuses st)"
  by (simp_all add: checkCopycat_def isPoolCountReason_def headText_def)

lemma pool_checkSupplyDiscrepancy [simp]:
  "filter isPoolCountReason (penalties (checkSupplyDiscrepancy m c l st)) = filter isPoolCountReason (penalties st)"
  "filter isPoolCountReason (bonuses (checkSupplyDiscrepancy m c l st)) = filter isPoolCountReason (bonuses st)"
  by (simp_all add: checkSupplyDiscrepancy_def isPoolCountReason_def headText_def)

lemma pool_checkManipulation [simp]:
  "filter isPoolCountReason (penalties (checkManipulation l m c st)) = filter isPoolCountReason (penalties st)"
  "filter isPoolCountReason (bonuses (checkManipulation l m c st)) = filter isPoolCountReason (bonuses st)"
  by (simp_all add: checkManipulation_def Let_def isPoolCountReason_def headText_def)

lemma pool_liquidityAssessment [simp]:
  "filter isPoolCountReason (penalties (liquidityAssessment l st)) = filter isPoolCountReason (penalties st)"
  "filter isPoolCountReason (bonuses (liquidityAssessment l st)) = filter isPoolCountReason (bonuses st)"
  by (simp_all add: liquidityAssessment_def isPoolCountReason_def headText_def)

lemma pool_suspiciousLiquidityAssessment [simp]:
  "filter isPoolCountReason (penalties (suspiciousLiquidityAssessment s l st)) = filter isPoolCountReason (penalties st)"
  "filter isPoolCountReason (bonuses (suspiciousLiquidityAssessment s l st)) = filter isPoolCountReason (bonuses st)"
  by (simp_all add: suspiciousLiquidityAssessment_def isPoolCountReason_def headText_def)

lemma pool_ratioAssessment [simp]:
  "filter isPoolCountReason (penalties (ratioAssessment m l st)) = filter isPoolCountReason (penalties st)"
  "filter isPoolCountReason (bonuses (ratioAssessment m l st)) = filter isPoolCountReason (bonuses st)"
  by (simp_all add: ratioAssessment_def Let_def isPoolCountReason_def headText_def)

lemma pool_ageAssessment [simp]:
  "filter isPoolCountReason (penalties (ageAssessment a st)) = filter isPoolCountReason (penalties st)"
  "filter isPoolCountReason (bonuses (ageAssessment a st)) = filter isPoolCountReason (bonuses st)"
  by (simp_all add: ageAssessment_def isPoolCountReason_def headText_def)

lemma poolCountAssessment_fallback_with_pools:
  "0 < nPools \<Longrightarrow> poolCountAssessment True nPools mcap circ liq ticker st = st"
  by (simp add: poolCountAssessment_def fallbackPoolAssessment_def)

text \<open>
  Claim C10. For every input with \<open>priceFromAveragePrice\<close> true and a positive pool
  count, the pool-count block leaves the scorer's state alone, the adjustments are
  those of the other nine blocks, and the audit trail holds no pool-count entry of
  either branch: neither the fallback penalties and wrapped-token bonus nor the
  regular rules, the +10 bonus for MIN_POOLS_REQUIRED pools included.
\<close>

theorem C10_fallback_no_pool_count_adjustment:
  assumes "fromAvg" and "0 < nPools"
  shows "poolCountAssessment fromAvg nPools mcap circ liq ticker st = st
    \<and> scoreAdjustments tokenId nPools suspicious liq mcap circ ticker age fromAvg =
        ageAssessment age
          (ratioAssessment mcap liq
            (suspiciousLiquidityAssessment suspicious liq
              (liquidityAssessment liq
                (checkManipulation liq mcap circ
                  (checkSupplyDiscrepancy mcap circ liq
                    (checkCopycat ticker mcap
                      (checkBlacklist tokenId
                        (checkWhitelist tokenId initialScoring))))))))
    \<and> filter isPoolCountReason
        (penalties (calculateTrustScore tokenId nPools suspicious liq mcap circ ticker age
           fromAvg)) = []
    \<and> filter isPoolCountReason
        (bonuses (calculateTrustScore tokenId nPools suspicious liq mcap circ ticker age
           fromAvg)) = []"
  using assms
  by (simp add: poolCountAssessment_fallback_with_pools scoreAdjustments_def
        sel_calculateTrustScore initialScoring_def)

theorem C10_fallback_no_pool_count_adjustment_witness:
  "(0::nat) < 2
   \<and> poolCountAssessment True 2 100000 1000 10000 (Some ''wBTC'') initialScoring =
       initialScoring
   \<and> filter isPoolCountReason (penalties exFallbackWithPools) = []
   \<and> filter isPoolCountReason (bonuses exFallbackWithPools) = []
   \<and> score exFallbackWithPools = 100"
proof -
  have pools: "(0::nat) < 2" by simp
  show ?thesis
    unfolding exFallbackWithPools_def
    using C10_fallback_no_pool_count_adjustment [OF TrueI pools, of 100000 1000 10000
        "Some ''wBTC''" initialScoring "''token''" False 0]
    by (simp add: eval_fallback_with_pools)
qed

subsection \<open>The weighted average\<close>

text \<open>With the identity for the rounding, the definitions are the exact ones.\<close>

lemma exact_instances:
  "toPricedPool_fp (\<lambda>x. x) = toPricedPool"
  "isOutlier_fp (\<lambda>x. x) = isOutlier"
  "hasExtremeOutliers_fp (\<lambda>x. x) = hasExtremeOutliers"
  "reasonablePools_fp (\<lambda>x. x) = reasonablePools"
  "sumLiquidity_fp (\<lambda>x. x) = sumLiquidity"
  "medianFallback_fp (\<lambda>x. x) = medianFallback"
  "suspiciousDistribution_fp (\<lambda>x. x) = suspiciousDistribution"
  "weightedAverage_fp (\<lambda>x. x) = weightedAverage"
  "calculateWeightedPrice_fp (\<lambda>x. x) = calculateWeightedPrice"
proof -
  show e1: "toPricedPool_fp (\<lambda>x. x) = toPricedPool"
    by (simp add: fun_eq_iff toPricedPool_fp_def toPricedPool_def)
  show e2: "isOutlier_fp (\<lambda>x. x) = isOutlier"
    by (simp add: fun_eq_iff isOutlier_fp_def isOutlier_def)
  show e3: "hasExtremeOutliers_fp (\<lambda>x. x) = hasExtremeOutliers"
    by (simp add: fun_eq_iff hasExtremeOutliers_fp_def hasExtremeOutliers_def e2)
  show e4: "reasonablePools_fp (\<lambda>x. x) = reasonablePools"
    by (simp add: fun_eq_iff reasonablePools_fp_def reasonablePools_def e3)
  show e5: "sumLiquidity_fp (\<lambda>x. x) = sumLiquidity"
    by (simp add: fun_eq_iff sumLiquidity_fp_def sumLiquidity_def)
  show e6: "medianFallback_fp (\<lambda>x. x) = medianFallback"
    by (simp add: fun_eq_iff medianFallback_fp_def medianFallback_def e5)
  show e7: "suspiciousDistribution_fp (\<lambda>x. x) = suspiciousDistribution"
    by (simp add: fun_eq_iff suspiciousDistribution_fp_def suspiciousDistribution_def)
  show e8: "weightedAverage_fp (\<lambda>x. x) = weightedAverage"
    by (simp add: fun_eq_iff weightedAverage_fp_def weightedAverage_def e5 e7 Let_def)
  show "calculateWeightedPrice_fp (\<lambda>x. x) = calculateWeightedPrice"
    by (simp add: fun_eq_iff calculateWeightedPrice_fp_def calculateWeightedPrice_def
          e1 e3 e4 e6 e8 Let_def split: response.split option.split)
qed

text \<open>
  The pools kept for the average are the priced pools within the price bounds: when no
  pool is out of range the list is left alone, and then every pool is within them.
\<close>

lemma reasonablePools_fp_filter:
  "reasonablePools_fp rnd ps =
     filter (\<lambda>p. rnd MIN_REASONABLE_PRICE \<le> price p \<and> price p \<le> MAX_REASONABLE_PRICE) ps"
proof (cases "hasExtremeOutliers_fp rnd ps")
  case True
  then show ?thesis
    by (simp add: reasonablePools_fp_def conj_commute)
next
  case False
  then have "\<forall>p \<in> set ps. rnd MIN_REASONABLE_PRICE \<le> price p \<and> price p \<le> MAX_REASONABLE_PRICE"
    by (auto simp add: hasExtremeOutliers_fp_def isOutlier_fp_def list_ex_iff not_less)
  then have "filter (\<lambda>p. rnd MIN_REASONABLE_PRICE \<le> price p \<and> price p \<le> MAX_REASONABLE_PRICE) ps = ps"
    by (simp add: filter_id_conv)
  with False show ?thesis
    by (simp add: reasonablePools_fp_def)
qed

lemma sumLiquidity_fp_roundedSum:
  "sumLiquidity_fp rnd ps = roundedSum rnd (map adaAmount ps)"
  by (simp add: sumLiquidity_fp_def roundedSum_def foldl_map)

lemma weightedAverage_fp_result:
  "totalLiquidity (weightedAverage_fp rnd ps out n) = roundedSum rnd (map adaAmount ps)"
  "weightedPrice (weightedAverage_fp rnd ps out n) =
     (if roundedSum rnd (map adaAmount ps) = 0 then 0
      else roundedSum rnd
             (map (\<lambda>p. rnd (price p * rnd (adaAmount p / roundedSum rnd (map adaAmount ps))))
                ps))"
  by (simp_all add: weightedAverage_fp_def Let_def sumLiquidity_fp_roundedSum roundedSum_def
        foldl_map)

lemma calculateWeightedPrice_fp_weighted:
  assumes "poolsResponse src = Resolved (Some pools)"
      and "reasonablePools_fp rnd (filter pool_valid (map (toPricedPool_fp rnd) pools)) \<noteq> []"
  shows "calculateWeightedPrice_fp rnd src =
           weightedAverage_fp rnd
             (reasonablePools_fp rnd (filter pool_valid (map (toPricedPool_fp rnd) pools)))
             (hasExtremeOutliers_fp rnd (filter pool_valid (map (toPricedPool_fp rnd) pools)))
             (length pools)"
proof -
  have "filter pool_valid (map (toPricedPool_fp rnd) pools) \<noteq> []"
    using assms(2) by (auto simp add: reasonablePools_fp_def hasExtremeOutliers_fp_def)
  then have "pools \<noteq> []" by auto
  with assms \<open>filter pool_valid (map (toPricedPool_fp rnd) pools) \<noteq> []\<close> show ?thesis
    by (simp add: calculateWeightedPrice_fp_def Let_def)
qed

lemma roundedSum_exact: "roundedSum (\<lambda>x. x) xs = sum_list xs"
proof -
  have "foldl (\<lambda>s x. s + x) a xs = a + sum_list xs" for a :: real
    by (induction xs arbitrary: a) simp_all
  then show ?thesis by (simp add: roundedSum_def)
qed

lemma twoPools_fp_result:
  assumes "list_all (\<lambda>x. rnd x = x) [1, 3, 100, 400, 1 / 4, 3 / 4, 9 / 4, 5 / 2]"
      and "rnd MIN_REASONABLE_PRICE \<le> 1"
  shows "totalLiquidity (calculateWeightedPrice_fp rnd twoPoolSource) = 400"
    and "weightedPrice (calculateWeightedPrice_fp rnd twoPoolSource) = 2.5"
proof -
  have exact: "rnd 1 = 1" "rnd 3 = 3" "rnd 100 = 100" "rnd 400 = 400"
    "rnd (1 / 4) = 1 / 4" "rnd (3 / 4) = 3 / 4" "rnd (9 / 4) = 9 / 4" "rnd (5 / 2) = 5 / 2"
    using assms(1) by simp_all
  have bound: "\<not> 1 < rnd (1 / 1000000)" "\<not> 3 < rnd (1 / 1000000)"
    "rnd (1 / 1000000) \<le> 1" "rnd (1 / 1000000) \<le> 3"
    using assms(2) by simp_all
  show "totalLiquidity (calculateWeightedPrice_fp rnd twoPoolSource) = 400"
    and "weightedPrice (calculateWeightedPrice_fp rnd twoPoolSource) = 2.5"
    by (simp_all add: calculateWeightedPrice_fp_def twoPoolSource_def twoPools_def
          toPricedPool_fp_def amountOf_def Let_def reasonablePools_fp_def
          hasExtremeOutliers_fp_def isOutlier_fp_def weightedAverage_fp_def
          sumLiquidity_fp_def exact bound)
qed

text \<open>
  Claim C3. For every pool set whose outlier filtering leaves at least one reasonable
  pool, that is, one valid pool priced within [MIN_REASONABLE_PRICE,
  MAX_REASONABLE_PRICE]: the reported total liquidity is the sum of the ADA amounts of
  the in-range pools; if that sum is zero the weighted price is 0, and otherwise it is
  the liquidity-weighted average, each in-range pool contributing its price times its
  liquidity divided by the total. Sums, products and quotients are the source's: in
  double arithmetic, summed in pool order from 0, for every rounding function. Two
  in-range pools with liquidities 100 and 300 and prices 1 and 3 give total liquidity
  400 and weighted price 2.5, for every rounding that leaves 1, 3, 100, 400, 0.25,
  0.75, 2.25 and 2.5 alone (they are doubles) and rounds 0.000001 to at most 1.
\<close>

theorem C3_weighted_average:
  "(poolsResponse src = Resolved (Some pools)
    \<and> filter (\<lambda>p. rnd MIN_REASONABLE_PRICE \<le> price p \<and> price p \<le> MAX_REASONABLE_PRICE)
         (filter pool_valid (map (toPricedPool_fp rnd) pools)) \<noteq> []
    \<longrightarrow>
      (let reasonable =
             filter (\<lambda>p. rnd MIN_REASONABLE_PRICE \<le> price p \<and> price p \<le> MAX_REASONABLE_PRICE)
               (filter pool_valid (map (toPricedPool_fp rnd) pools));
           liq = roundedSum rnd (map adaAmount reasonable);
           r = calculateWeightedPrice_fp rnd src
       in totalLiquidity r = liq
          \<and> weightedPrice r =
              (if liq = 0 then 0
               else roundedSum rnd
                      (map (\<lambda>p. rnd (price p * rnd (adaAmount p / liq))) reasonable))))
   \<and> (list_all (\<lambda>x. rnd x = x) [1, 3, 100, 400, 1 / 4, 3 / 4, 9 / 4, 5 / 2]
      \<and> rnd MIN_REASONABLE_PRICE \<le> 1
      \<longrightarrow> totalLiquidity (calculateWeightedPrice_fp rnd twoPoolSource) = 400
          \<and> weightedPrice (calculateWeightedPrice_fp rnd twoPoolSource) = 2.5)"
proof (intro conjI impI)
  assume h: "poolsResponse src = Resolved (Some pools)
    \<and> filter (\<lambda>p. rnd MIN_REASONABLE_PRICE \<le> price p \<and> price p \<le> MAX_REASONABLE_PRICE)
         (filter pool_valid (map (toPricedPool_fp rnd) pools)) \<noteq> []"
  then have src: "poolsResponse src = Resolved (Some pools)" by simp
  from h have ne: "reasonablePools_fp rnd (filter pool_valid (map (toPricedPool_fp rnd) pools)) \<noteq> []"
    by (simp add: reasonablePools_fp_filter)
  show "let reasonable =
             filter (\<lambda>p. rnd MIN_REASONABLE_PRICE \<le> price p \<and> price p \<le> MAX_REASONABLE_PRICE)
               (filter pool_valid (map (toPricedPool_fp rnd) pools));
           liq = roundedSum rnd (map adaAmount reasonable);
           r = calculateWeightedPrice_fp rnd src
       in totalLiquidity r = liq
          \<and> weightedPrice r =
              (if liq = 0 then 0
               else roundedSum rnd
                      (map (\<lambda>p. rnd (price p * rnd (adaAmount p / liq))) reasonable))"
    unfolding Let_def calculateWeightedPrice_fp_weighted [OF src ne] weightedAverage_fp_result
    by (simp add: reasonablePools_fp_filter)
next
  assume "list_all (\<lambda>x. rnd x = x) [1, 3, 100, 400, 1 / 4, 3 / 4, 9 / 4, 5 / 2]
      \<and> rnd MIN_REASONABLE_PRICE \<le> 1"
  then show "totalLiquidity (calculateWeightedPrice_fp rnd twoPoolSource) = 400"
    and "weightedPrice (calculateWeightedPrice_fp rnd twoPoolSource) = 2.5"
    using twoPools_fp_result [of rnd] by simp_all
qed

lemma outlierPools_priced:
  "filter pool_valid (map (toPricedPool_fp (\<lambda>x. x)) outlierPools) =
     [\<lparr>pool_dex = ''A'', adaAmount = 100, tokenAmount = 100, price = 1, pool_valid = True\<rparr>,
      \<lparr>pool_dex = ''X'', adaAmount = 10000, tokenAmount = 1, price = 10000, pool_valid = True\<rparr>,
      \<lparr>pool_dex = ''B'', adaAmount = 300, tokenAmount = 100, price = 3, pool_valid = True\<rparr>]"
  by (simp add: outlierPools_def toPricedPool_fp_def amountOf_def Let_def)

theorem C3_weighted_average_witness:
  "poolsResponse outlierSource = Resolved (Some outlierPools)
   \<and> filter (\<lambda>p. MIN_REASONABLE_PRICE \<le> price p \<and> price p \<le> MAX_REASONABLE_PRICE)
        (filter pool_valid (map (toPricedPool_fp (\<lambda>x. x)) outlierPools)) =
       [\<lparr>pool_dex = ''A'', adaAmount = 100, tokenAmount = 100, price = 1, pool_valid = True\<rparr>,
        \<lparr>pool_dex = ''B'', adaAmount = 300, tokenAmount = 100, price = 3, pool_valid = True\<rparr>]
   \<and> totalLiquidity (calculateWeightedPrice_fp (\<lambda>x. x) outlierSource) = 400
   \<and> weightedPrice (calculateWeightedPrice_fp (\<lambda>x. x) outlierSource) = 2.5
   \<and> totalLiquidity (calculateWeightedPrice_fp (\<lambda>x. x) twoPoolSource) = 400
   \<and> weightedPrice (calculateWeightedPrice_fp (\<lambda>x. x) twoPoolSource) = 2.5"
proof -
  have src: "poolsResponse outlierSource = Resolved (Some outlierPools)"
    by (simp add: outlierSource_def)
  show ?thesis
    using C3_weighted_average [of outlierSource outlierPools "\<lambda>x. x"] src
    by (simp add: Let_def outlierPools_priced roundedSum_def)
qed

subsection \<open>The median flag\<close>

lemma calculateWeightedPrice_median:
  assumes "poolsResponse src = Resolved (Some pools)"
      and "filter pool_valid (map toPricedPool pools) \<noteq> []"
      and "reasonablePools (filter pool_valid (map toPricedPool pools)) = []"
  shows "calculateWeightedPrice src =
           medianFallback (filter pool_valid (map toPricedPool pools))"
proof -
  from assms(2) have "pools \<noteq> []" by auto
  with assms show ?thesis
    by (simp add: calculateWeightedPrice_def Let_def)
qed

text \<open>
  On the weighted-average path with a non-zero total, \<open>medianUsed\<close> is whatever
  \<open>suspiciousLiquidity\<close> is.
\<close>

lemma weightedAverage_medianUsed:
  "sumLiquidity ps \<noteq> 0 \<Longrightarrow>
     medianUsed (weightedAverage ps out n) = suspiciousLiquidity (weightedAverage ps out n)
     \<and> medianUsed (weightedAverage ps out n) =
         Some (suspiciousDistribution ps (sumLiquidity ps))"
  by (simp add: weightedAverage_def Let_def)

text \<open>
  Claim C4 says that \<open>medianUsed\<close> is true exactly when range filtering removes every
  priced pool, and false on the weighted-average path. The weighted-average return
  sets \<open>medianUsed\<close> to \<open>suspiciousLiquidity\<close>: for a single pool of 100 ADA against 50
  tokens the price 2 is in range, the weighted average is taken, and the result
  carries \<open>medianUsed = true\<close>.
\<close>

theorem C4_median_flag_on_weighted_path:
  "reasonablePools
     (filter pool_valid
        (map toPricedPool
           [\<lparr>dex = ''A'', token_1_amount = Some 100, token_2_amount = Some 50\<rparr>])) =
     [\<lparr>pool_dex = ''A'', adaAmount = 100, tokenAmount = 50, price = 2, pool_valid = True\<rparr>]
   \<and> calculateWeightedPrice singlePoolSource =
     \<lparr>weightedPrice = 2, totalLiquidity = 100, filteredOutliers = False, poolCount = 1,
      originalPoolCount = Some 1, medianUsed = Some True, suspiciousLiquidity = Some True,
      priceFromAveragePrice = Some False, noPoolsFound = None, emptySuspiciousPools = None,
      error = None\<rparr>"
  by (simp add: calculateWeightedPrice_def singlePoolSource_def toPricedPool_def amountOf_def
        Let_def reasonablePools_def hasExtremeOutliers_def isOutlier_def weightedAverage_def
        sumLiquidity_def suspiciousDistribution_def)

subsection \<open>The average-price fallback\<close>

text \<open>
  The zero-price return is the only one that sets \<open>noPoolsFound\<close>, so a result that
  carries the flag has price 0, and the market cap computed from it is 0: the
  validator's check of \<open>noPoolsFound\<close> against a market cap above 1000000 cannot fire
  on it.
\<close>

lemma noPoolsFound_only_with_zero_price:
  "noPoolsFound (calculateWeightedPrice src) = Some True \<Longrightarrow>
     weightedPrice (calculateWeightedPrice src) = 0"
  by (auto simp add: calculateWeightedPrice_def noPoolData_def averagePriceLookup_def
        averagePriceResult_def emptySuspiciousPoolData_def medianFallback_def
        weightedAverage_def Let_def
      split: response.splits option.splits if_splits)

lemma checkNoPoolsFound_idle_on_resolver_results:
  "ta_noPoolsFound ta = noPoolsFound (calculateWeightedPrice src) \<Longrightarrow>
     checkNoPoolsFound (weightedPrice (calculateWeightedPrice src) * supply) ta v = v"
  using noPoolsFound_only_with_zero_price [of src]
  by (auto simp add: checkNoPoolsFound_def truthy_def)

text \<open>What the no-pool branch returns, with and without a fallback price.\<close>

lemma averagePriceLookup_result:
  "averagePriceLookup src = Some r \<Longrightarrow>
     poolCount r = 0 \<and> priceFromAveragePrice r = Some True
     \<and> suspiciousLiquidity r = Some True \<and> noPoolsFound r = None"
  by (auto simp add: averagePriceLookup_def averagePriceResult_def
      split: response.splits option.splits)

lemma noPoolData_without_price:
  "averagePriceLookup src = None \<Longrightarrow>
     weightedPrice (noPoolData src) = 0 \<and> noPoolsFound (noPoolData src) = Some True"
  by (simp add: noPoolData_def)

text \<open>
  Claim C6 says that a fallback price found for a token without pool data is returned
  with \<open>poolCount = 0\<close>, \<open>priceFromAveragePrice\<close>, \<open>suspiciousLiquidity\<close> and
  \<open>noPoolsFound\<close> all set. With an empty pool list and a token-to-ADA average price of
  0.5, the result carries the price and the first three, and has no \<open>noPoolsFound\<close>
  property: only the zero-price return sets it.
\<close>

theorem C6_fallback_price_lacks_noPoolsFound:
  "calculateWeightedPrice fallbackSource =
     \<lparr>weightedPrice = 0.5, totalLiquidity = 0, filteredOutliers = False, poolCount = 0,
      originalPoolCount = Some 0, medianUsed = None, suspiciousLiquidity = Some True,
      priceFromAveragePrice = Some True, noPoolsFound = None, emptySuspiciousPools = None,
      error = None\<rparr>"
  by (simp add: calculateWeightedPrice_def fallbackSource_def noPoolData_def
        averagePriceLookup_def priceOf_def averagePriceResult_def)

text \<open>
  The branch for pools without a valid price never reads the ADA-to-token response.
\<close>

lemma emptySuspiciousPoolData_ignores_reverse_lookup:
  "emptySuspiciousPoolData (src\<lparr>averagePriceADAToken := other\<rparr>) n =
     emptySuspiciousPoolData src n"
  by (simp add: emptySuspiciousPoolData_def)

text \<open>
  Claim C7 says that when every raw pool is invalid the resolver takes the same
  fallback path as for an empty list, in both quote directions. With one invalid pool,
  no price from the token-to-ADA lookup and price 5 from the ADA-to-token lookup, the
  no-pool lookup finds the price 5, while the resolver makes only the first request
  and returns the zero-price result flagged \<open>emptySuspiciousPools\<close>.
\<close>

theorem C7_invalid_pools_skip_reverse_lookup:
  "averagePriceLookup reverseOnlySource = Some (averagePriceResult 5)
   \<and> calculateWeightedPrice reverseOnlySource =
     \<lparr>weightedPrice = 0, totalLiquidity = 0, filteredOutliers = False, poolCount = 0,
      originalPoolCount = Some 1, medianUsed = None, suspiciousLiquidity = Some True,
      priceFromAveragePrice = None, noPoolsFound = None, emptySuspiciousPools = Some True,
      error = None\<rparr>"
  by (simp add: calculateWeightedPrice_def reverseOnlySource_def toPricedPool_def amountOf_def
        Let_def emptySuspiciousPoolData_def averagePriceLookup_def priceOf_def)

subsection \<open>The ranked list of the report\<close>

lemma mset_top_tokens:
  "mset (top_tokens_by_market_cap_valid (generateMarketCapReport ts)) =
     mset (filter validMarketCap ts)"
  by (simp add: generateMarketCapReport_def Let_def)

lemma sorted_top_tokens:
  "sorted_wrt (\<lambda>a b. marketCapOf a \<ge> marketCapOf b)
     (top_tokens_by_market_cap_valid (generateMarketCapReport ts))"
proof -
  have "sorted (map (\<lambda>t. - marketCapOf t)
          (sort_key (\<lambda>t. - marketCapOf t) (filter validMarketCap ts)))"
    by (rule sorted_sort_key)
  then show ?thesis
    by (simp add: generateMarketCapReport_def Let_def sorted_map)
qed

text \<open>
  Claim C9. For every list of enriched tokens, the report's ranked list
  \<open>top_tokens_by_market_cap_valid\<close> holds exactly the tokens with a market cap above 0
  and a trust score of at least 40, each as often as the input has it, in descending
  order of market cap; every other token is left out.
\<close>

theorem C9_ranked_list:
  "mset (top_tokens_by_market_cap_valid (generateMarketCapReport ts)) =
     mset (filter (\<lambda>t. positive (market_cap t) \<and> scoreAtLeast 40 t) ts)
   \<and> sorted_wrt (\<lambda>a b. marketCapOf a \<ge> marketCapOf b)
       (top_tokens_by_market_cap_valid (generateMarketCapReport ts))
   \<and> set (top_tokens_by_market_cap_valid (generateMarketCapReport ts)) =
       {t \<in> set ts. positive (market_cap t) \<and> scoreAtLeast 40 t}"
proof -
  have eq: "(\<lambda>t. positive (market_cap t) \<and> scoreAtLeast 40 t) = validMarketCap"
    by (simp add: validMarketCap_def fun_eq_iff)
  have members: "{t \<in> set ts. positive (market_cap t) \<and> scoreAtLeast 40 t} =
      set (filter validMarketCap ts)"
    by (auto simp add: validMarketCap_def)
  show ?thesis
    unfolding eq members
    using mset_top_tokens [of ts] sorted_top_tokens [of ts]
    by (simp add: generateMarketCapReport_def Let_def)
qed

theorem C9_ranked_list_witness:
  "top_tokens_by_market_cap_valid (generateMarketCapReport exTokens) =
     [scoredToken ''b'' 9 80, scoredToken ''a'' 5 50]"
proof -
  have "mset (top_tokens_by_market_cap_valid (generateMarketCapReport exTokens)) =
          mset [scoredToken ''a'' 5 50, scoredToken ''b'' 9 80]"
    using C9_ranked_list [of exTokens]
    by (simp add: exTokens_def scoredToken_def degradedToken_def positive_def
          scoreAtLeast_def)
  then show ?thesis
    by (simp add: generateMarketCapReport_def Let_def exTokens_def scoredToken_def
          degradedToken_def validMarketCap_def positive_def scoreAtLeast_def
          marketCapOf_def amountOf_def)
qed

subsection \<open>The low-trust caution of the validator\<close>

lemma cautionAssessment_value:
  "cautionAssessment =
     \<lparr>score = 35,
      penalties = [\<lparr>reason = [Txt ''No liquidity pools found''], points = - 80\<rparr>],
      bonuses = [\<lparr>reason = [Txt ''Token has existed for more than a year''], points = 15\<rparr>],
      trustLevel = Low, isHoneypot = False, ta_priceFromAveragePrice = False,
      potentialCopycatDetected = Some False, supplyDiscrepancy = Some False,
      ta_noPoolsFound = None, ta_emptySuspiciousPools = None,
      circulatingSupply = Some 1000, trustScore = None, ta_reason = None\<rparr>"
  by (simp add: cautionAssessment_def eval_low attachFlags_def)

lemma caution_validation:
  "validateMarketCap 100000 10000 cautionAssessment =
     \<lparr>valid = True, reasons = [], v_trustScore = 0\<rparr>"
  by (simp add: cautionAssessment_value validator_defs Let_def)

lemma lowTrustSource_price:
  "calculateWeightedPrice lowTrustSource =
     \<lparr>weightedPrice = 1, totalLiquidity = 10000, filteredOutliers = False, poolCount = 1,
      originalPoolCount = Some 1, medianUsed = Some True, suspiciousLiquidity = Some True,
      priceFromAveragePrice = Some False, noPoolsFound = None, emptySuspiciousPools = None,
      error = None\<rparr>"
  by (simp add: calculateWeightedPrice_def lowTrustSource_def toPricedPool_def amountOf_def
        Let_def reasonablePools_def hasExtremeOutliers_def isOutlier_def weightedAverage_def
        sumLiquidity_def suspiciousDistribution_def)

lemma lowTrust_assessment:
  "calculateTrustScore ''token'' (Suc 0) True 10000 600000 600000 (Some ''SNEK'') 0 False =
     \<lparr>score = 20,
      penalties = [\<lparr>reason = [Txt ''Single liquidity pool''], points = - 30\<rparr>,
           \<lparr>reason = [Txt ''High market cap to liquidity ratio ('', Fixed2 60, Txt '':1)''],
            points = - 20\<rparr>,
           \<lparr>reason = [Txt ''Suspicious liquidity distribution with low total liquidity''],
            points = - 30\<rparr>],
      bonuses = [],
      trustLevel = Low, isHoneypot = False, ta_priceFromAveragePrice = False,
      potentialCopycatDetected = None, supplyDiscrepancy = None,
      ta_noPoolsFound = None, ta_emptySuspiciousPools = None,
      circulatingSupply = None, trustScore = None, ta_reason = None\<rparr>"
  by (simp add: scorer_defs Let_def)

lemma lowTrust_validation:
  "validateMarketCap 600000 10000
     (attachFlags False False None None 600000
        (calculateTrustScore ''token'' (Suc 0) True 10000 600000 600000 (Some ''SNEK'') 0
           False)) =
     \<lparr>valid = True, reasons = [], v_trustScore = 0\<rparr>"
  by (simp add: lowTrust_assessment validator_defs Let_def)

lemma lowTrust_enhanced:
  "enhanceTokenData lowTrustToken (calculateWeightedPrice lowTrustSource) 0 False =
     \<lparr>token_id = ''token'', market_cap = Some 600000, token_price = Some 1,
      liquidity = Some 10000, total_supply = None, circulating_supply = Some 600000,
      outliers_filtered = Some False, honeypot_risk = Some False,
      trust_assessment = Some \<lparr>score = 20,
         penalties = [\<lparr>reason = [Txt ''Single liquidity pool''], points = - 30\<rparr>,
           \<lparr>reason = [Txt ''High market cap to liquidity ratio ('', Fixed2 60, Txt '':1)''],
            points = - 20\<rparr>,
           \<lparr>reason = [Txt ''Suspicious liquidity distribution with low total liquidity''],
            points = - 30\<rparr>],
         bonuses = []\<rparr>,
      token_validation = Some \<lparr>valid = True, reasons = [], v_trustScore = 0\<rparr>\<rparr>"
  unfolding enhanceTokenData_def lowTrustSource_price
  by (simp add: lowTrustToken_def Let_def amountOf_def truthy_def truthyTicker_def
        lowTrust_validation)
     (simp add: lowTrust_assessment attachFlags_def)

lemma sel_pushReason [simp]:
  "reasons (pushReason r v) = reasons v @ [r]"
  "valid (pushReason r v) = valid v"
  by (simp_all add: pushReason_def)

lemma sel_invalidate [simp]:
  "reasons (invalidate v) = reasons v"
  "valid (invalidate v) = False"
  by (simp_all add: invalidate_def)

lemma caution_checkEmptySuspiciousPools [simp]:
  "filter isLowTrustCaution (reasons (checkEmptySuspiciousPools ta v)) =
     filter isLowTrustCaution (reasons v)"
  by (simp add: checkEmptySuspiciousPools_def isLowTrustCaution_def)

lemma caution_checkNoPoolsFound [simp]:
  "filter isLowTrustCaution (reasons (checkNoPoolsFound mcap ta v)) =
     filter isLowTrustCaution (reasons v)"
  by (simp add: checkNoPoolsFound_def isLowTrustCaution_def)

lemma caution_checkSupplyRedFlag [simp]:
  "filter isLowTrustCaution (reasons (checkSupplyRedFlag ta v)) =
     filter isLowTrustCaution (reasons v)"
  by (simp add: checkSupplyRedFlag_def isLowTrustCaution_def)

lemma caution_checkMinimumLiquidity [simp]:
  "filter isLowTrustCaution (reasons (checkMinimumLiquidity liq v)) =
     filter isLowTrustCaution (reasons v)"
  by (simp add: checkMinimumLiquidity_def isLowTrustCaution_def)

lemma caution_checkLiquidityRatio [simp]:
  "filter isLowTrustCaution (reasons (checkLiquidityRatio mcap liq v)) =
     filter isLowTrustCaution (reasons v)"
  by (simp add: checkLiquidityRatio_def Let_def isLowTrustCaution_def)

lemma caution_checkZeroSupply [simp]:
  "filter isLowTrustCaution (reasons (checkZeroSupply mcap ta v)) =
     filter isLowTrustCaution (reasons v)"
  by (simp add: checkZeroSupply_def Let_def isLowTrustCaution_def)

lemma caution_checkTrustScore:
  "filter isLowTrustCaution (reasons (checkTrustScore ta v)) =
     filter isLowTrustCaution (reasons v) @
       (case trustScore ta of
          None \<Rightarrow> []
        | Some s \<Rightarrow>
            if \<not> isHoneypot ta \<and> s < 40
            then [[Txt ''Low trust score ('', Num s, Txt ''/100) - exercise caution'']]
            else [])"
  by (simp add: checkTrustScore_def isLowTrustCaution_def split: option.split)

text \<open>
  The caution is recorded exactly when the assessment carries a \<open>trustScore\<close> below 40
  and is not a honeypot; an assessment without that property never gets it.
\<close>

lemma caution_validateMarketCap:
  "filter isLowTrustCaution (reasons (validateMarketCap mcap liq ta)) =
     (case trustScore ta of
        None \<Rightarrow> []
      | Some s \<Rightarrow>
          if \<not> isHoneypot ta \<and> s < 40
          then [[Txt ''Low trust score ('', Num s, Txt ''/100) - exercise caution'']]
          else [])"
  by (simp add: validateMarketCap_def caution_checkTrustScore)

lemma scorer_result_has_no_trustScore:
  "trustScore (attachFlags copycat discrepancy noPools emptyPools circulating
     (calculateTrustScore tokenId nPools suspicious liq mcap circ ticker age fromAvg)) = None"
  by (simp add: attachFlags_def calculateTrustScore_def Let_def)

lemma scorer_result_never_cautioned:
  "filter isLowTrustCaution
     (reasons (validateMarketCap m l
        (attachFlags copycat discrepancy noPools emptyPools circulating
           (calculateTrustScore tokenId nPools suspicious liq mcap circ ticker age fromAvg)))) = []"
  by (simp add: caution_validateMarketCap scorer_result_has_no_trustScore)

text \<open>
  Claim C1 says that a trust assessment that is not a honeypot and scores below 40
  yields \<open>valid = true\<close> with a low-trust-score caution among the reasons.
  \<open>validateMarketCap\<close> takes the score from the property \<open>trustScore\<close>, which the
  scorer's result does not have (it has \<open>score\<close>). For market cap 100000, liquidity
  10000 and the scorer's assessment of score 35, the result is valid with no reason at
  all; the same holds end to end for a single-pool token of score 20.
\<close>

theorem C1_low_score_caution_missing:
  "score cautionAssessment = 35 \<and> isHoneypot cautionAssessment = False
   \<and> validateMarketCap 100000 10000 cautionAssessment =
       \<lparr>valid = True, reasons = [], v_trustScore = 0\<rparr>
   \<and> trust_assessment
        (enhanceTokenData lowTrustToken (calculateWeightedPrice lowTrustSource) 0 False) =
       Some \<lparr>score = 20,
         penalties = [\<lparr>reason = [Txt ''Single liquidity pool''], points = - 30\<rparr>,
           \<lparr>reason = [Txt ''High market cap to liquidity ratio ('', Fixed2 60, Txt '':1)''],
            points = - 20\<rparr>,
           \<lparr>reason = [Txt ''Suspicious liquidity distribution with low total liquidity''],
            points = - 30\<rparr>],
         bonuses = []\<rparr>
   \<and> token_validation
        (enhanceTokenData lowTrustToken (calculateWeightedPrice lowTrustSource) 0 False) =
       Some \<lparr>valid = True, reasons = [], v_trustScore = 0\<rparr>"
  by (simp add: caution_validation lowTrust_enhanced) (simp add: cautionAssessment_value)

end
